theory Spec2Isabelle
  imports Complex_Main "HOL-Library.Sublist" "HOL-Library.Multiset"
begin

section \<open>JavaScript values and built-ins used by the application\<close>

text \<open>
  Strings are \<^typ>\<open>string\<close>: ASCII text is written as it stands in the source, and a
  character outside ASCII is written as the bytes of its UTF-8 encoding (the encoding of
  the source file and of the exported file). A JavaScript number is an integer or
  \<open>NaN\<close>; the application only produces integers (\<open>parseInt\<close>, array lengths,
  differences of integers).
\<close>

datatype jsnum = NaN | Num int

datatype error = TypeError

definition isWhiteSpace :: "char \<Rightarrow> bool" where
  "isWhiteSpace c = (c \<in> set [CHR 0x09, CHR 0x0A, CHR 0x0B, CHR 0x0C, CHR 0x0D, CHR 0x20])"

definition isDigit :: "char \<Rightarrow> bool" where
  "isDigit c = (c \<in> set ''0123456789'')"

definition digitValue :: "char \<Rightarrow> nat" where
  "digitValue c = of_char c - 48"

definition digitsValue :: "string \<Rightarrow> nat" where
  "digitsValue ds = foldl (\<lambda>acc c. 10 * acc + digitValue c) 0 ds"

text \<open>
  \<open>stripSign s\<close> reads an optional leading \<open>+\<close> or \<open>-\<close>: the sign as \<open>1\<close> or \<open>-1\<close>
  and the rest of the string.
\<close>

definition stripSign :: "string \<Rightarrow> int \<times> string" where
  "stripSign s =
     (case s of
        [] \<Rightarrow> (1, [])
      | c # cs \<Rightarrow>
          if c = CHR ''-'' then (-1, cs)
          else if c = CHR ''+'' then (1, cs)
          else (1, c # cs))"

text \<open>
  \<open>parseInt(s, 10)\<close>: leading white space is skipped, then an optional sign, then the
  longest prefix of decimal digits; whatever follows the digits is ignored. No digit at
  that place gives \<open>NaN\<close>. White space is the ASCII white space (the number inputs of the
  page deliver no other).
\<close>

definition parseInt :: "string \<Rightarrow> jsnum" where
  "parseInt s =
     (let (sign, u) = stripSign (dropWhile isWhiteSpace s);
          z = takeWhile isDigit u
      in if z = [] then NaN else Num (sign * int (digitsValue z)))"

text \<open>
  \<open>Number(s)\<close> on a string: white space is trimmed at both ends, the empty string is
  \<open>0\<close>, a signed run of decimal digits is its value. Every other string is \<open>NaN\<close> here;
  JavaScript also reads decimal fractions, exponents, \<open>0x\<close>/\<open>0o\<close>/\<open>0b\<close> literals and
  \<open>Infinity\<close>, which this model of the built-in leaves out.
\<close>

definition trim :: "string \<Rightarrow> string" where
  "trim s = rev (dropWhile isWhiteSpace (rev (dropWhile isWhiteSpace s)))"

definition Number :: "string \<Rightarrow> jsnum" where
  "Number s =
     (let t = trim s in
      if t = [] then Num 0
      else
        (let (sign, u) = stripSign t in
         if u \<noteq> [] \<and> list_all isDigit u then Num (sign * int (digitsValue u)) else NaN))"

text \<open>\<open>s.split(sep)\<close> for a one-character separator: never the empty array.\<close>

fun jsSplit :: "char \<Rightarrow> string \<Rightarrow> string list" where
  "jsSplit sep [] = [[]]"
| "jsSplit sep (c # cs) =
     (if c = sep then [] # jsSplit sep cs
      else (case jsSplit sep cs of
              [] \<Rightarrow> [[c]]
            | p # ps \<Rightarrow> (c # p) # ps))"

text \<open>\<open>xs.join(sep)\<close> on an array of strings.\<close>

fun join :: "string \<Rightarrow> string list \<Rightarrow> string" where
  "join sep [] = []"
| "join sep [x] = x"
| "join sep (x # y # ys) = x @ sep @ join sep (y # ys)"

text \<open>
  \<open>s.toLowerCase()\<close>: the letters \<open>A\<close> to \<open>Z\<close> are mapped to \<open>a\<close> to \<open>z\<close>. Bytes
  outside ASCII are kept, which is what JavaScript does on letters that are lower case
  already (all the non-ASCII letters of the export headers are).
\<close>

definition lowerChar :: "char \<Rightarrow> char" where
  "lowerChar c =
     (if 65 \<le> (of_char c :: nat) \<and> (of_char c :: nat) \<le> 90
      then char_of ((of_char c :: nat) + 32) else c)"

definition toLowerCase :: "string \<Rightarrow> string" where
  "toLowerCase s = map lowerChar s"

text \<open>\<open>s.includes(t)\<close>: \<open>t\<close> occurs in \<open>s\<close> as a contiguous run.\<close>

definition includes_str :: "string \<Rightarrow> string \<Rightarrow> bool" where
  "includes_str s t = sublist t s"

text \<open>\<open>s.replace(/c/g, r)\<close> for a one-character pattern.\<close>

definition replaceAll :: "char \<Rightarrow> string \<Rightarrow> string \<Rightarrow> string" where
  "replaceAll c r s = concat (map (\<lambda>x. if x = c then r else [x]) s)"

text \<open>The decimal text of a number, as a template literal prints an integer.\<close>

definition digitChar :: "nat \<Rightarrow> char" where
  "digitChar d = char_of (48 + d)"

function showNat :: "nat \<Rightarrow> string" where
  "showNat n = (if n < 10 then [digitChar n] else showNat (n div 10) @ [digitChar (n mod 10)])"
  by pat_completeness auto
termination
  by (relation "measure id") auto

declare showNat.simps [simp del]

definition showInt :: "int \<Rightarrow> string" where
  "showInt i = (if i < 0 then CHR ''-'' # showNat (nat (- i)) else showNat (nat i))"

text \<open>\<open>x || d\<close> on a string that may be \<open>null\<close>: \<open>null\<close> and the empty string are falsy.\<close>

definition orElseStr :: "string \<Rightarrow> string \<Rightarrow> string" where
  "orElseStr s d = (if s = [] then d else s)"

definition orElse :: "string option \<Rightarrow> string \<Rightarrow> string" where
  "orElse x d = (case x of None \<Rightarrow> d | Some s \<Rightarrow> orElseStr s d)"

section \<open>Data model\<close>

text \<open>
  The documents of the three Firestore collections, with the fields this client writes.
  \<open>sub_id\<close> and \<open>rev_id\<close> are the document ids that the snapshot listeners add as
  \<open>id\<close>.
\<close>

record submission =
  sub_id :: string
  sub_author :: string
  sub_link :: string
  sub_status :: string
  sub_reviewCount :: int
  sub_submissionDate :: string
  sub_pickupDate :: "string option"
  sub_correctionDate :: "string option"

record review =
  rev_id :: string
  rev_submissionId :: string
  rev_reviewer :: string
  rev_status :: string
  rev_score :: "int option"
  rev_comment :: string
  rev_pickupDate :: string
  rev_correctionDate :: "string option"

record settings =
  reviewsPerSubmission :: int
  maxScore :: int

record db =
  submissions :: "submission list"
  reviews :: "review list"
  settings :: settings

section \<open>The view projector: \<open>filteredAndSortedReviews\<close>\<close>

text \<open>
  A row of the administrator's table. \<open>item_type\<close> is the field \<open>type\<close>
  (\<open>'review'\<close> or \<open>'submission'\<close>). \<open>item_submissionId\<close> is present on a review row
  (spread from the review) and absent on a placeholder row. The fields of the spread
  submission that no later code reads (\<open>author\<close>, \<open>link\<close>, \<open>reviewCount\<close>) are left out.
\<close>

datatype itemType = ReviewRow | SubmissionRow

record item =
  item_id :: string
  item_type :: itemType
  item_submissionId :: "string option"
  item_sender :: string
  item_submissionLink :: string
  item_submissionDate :: string
  item_pickupDate :: "string option"
  item_correctionDate :: "string option"
  item_status :: string
  item_statusText :: string
  item_reviewer :: string
  item_score :: "int option"
  item_comment :: string

text \<open>The labels \<open>Zkontrolov\<acute>ano\<close> (with a-acute, UTF-8 \<open>C3 A1\<close>), \<open>Vyzvednuto\<close>, \<open>Nevyzvednuto\<close>.\<close>

definition labelZkontrolovano :: string where
  "labelZkontrolovano = ''Zkontrolov'' @ [CHR 0xC3, CHR 0xA1] @ ''no''"

definition labelVyzvednuto :: string where
  "labelVyzvednuto = ''Vyzvednuto''"

definition labelNevyzvednuto :: string where
  "labelNevyzvednuto = ''Nevyzvednuto''"

definition reviewRow :: "submission \<Rightarrow> review \<Rightarrow> item" where
  "reviewRow sub r =
     \<lparr> item_id = rev_id r,
       item_type = ReviewRow,
       item_submissionId = Some (rev_submissionId r),
       item_sender = sub_author sub,
       item_submissionLink = sub_link sub,
       item_submissionDate = sub_submissionDate sub,
       item_pickupDate = Some (rev_pickupDate r),
       item_correctionDate = rev_correctionDate r,
       item_status = rev_status r,
       item_statusText =
         (if rev_status r = ''finished'' then labelZkontrolovano else labelVyzvednuto),
       item_reviewer = rev_reviewer r,
       item_score = rev_score r,
       item_comment = rev_comment r \<rparr>"

definition placeholderRow :: "submission \<Rightarrow> item" where
  "placeholderRow sub =
     \<lparr> item_id = sub_id sub,
       item_type = SubmissionRow,
       item_submissionId = None,
       item_sender = sub_author sub,
       item_submissionLink = sub_link sub,
       item_submissionDate = sub_submissionDate sub,
       item_pickupDate = None,
       item_correctionDate = None,
       item_status = ''unassigned'',
       item_statusText = labelNevyzvednuto,
       item_reviewer = ''N/A'',
       item_score = None,
       item_comment = [] \<rparr>"

text \<open>The body of the \<open>map\<close> over the submissions, and \<open>allItems\<close> (\<open>.flat()\<close>).\<close>

definition rowsForSubmission :: "review list \<Rightarrow> submission \<Rightarrow> item list" where
  "rowsForSubmission revs sub =
     (let reviewsForSub = filter (\<lambda>r. rev_submissionId r = sub_id sub) revs in
      if length reviewsForSub > 0 then map (reviewRow sub) reviewsForSub
      else [placeholderRow sub])"

definition allItems :: "db \<Rightarrow> item list" where
  "allItems dbData = concat (map (rowsForSubmission (reviews dbData)) (submissions dbData))"

subsection \<open>Filter\<close>

record filterMenu =
  fm_column :: "string option"
  fm_open :: bool
  fm_value :: string

text \<open>
  The score range: \<open>[min, max] = value.split('-').map(Number)\<close>. A missing second
  piece is \<open>undefined\<close>, for which \<open>isNaN\<close> holds as for \<open>NaN\<close>. A \<open>null\<close> score
  compares as \<open>0\<close>.
\<close>

definition scoreRange :: "string \<Rightarrow> jsnum \<times> jsnum" where
  "scoreRange v =
     (case map Number (jsSplit CHR ''-'' v) of
        [] \<Rightarrow> (NaN, NaN)
      | [mn] \<Rightarrow> (mn, NaN)
      | mn # mx # _ \<Rightarrow> (mn, mx))"

definition nullAsZero :: "int option \<Rightarrow> int" where
  "nullAsZero s = (case s of None \<Rightarrow> 0 | Some n \<Rightarrow> n)"

definition inScoreRange :: "string \<Rightarrow> int option \<Rightarrow> bool" where
  "inScoreRange v score =
     (case scoreRange v of
        (Num mn, Num mx) \<Rightarrow> nullAsZero score \<ge> mn \<and> nullAsZero score \<le> mx
      | (Num mn, NaN) \<Rightarrow> nullAsZero score \<ge> mn
      | (NaN, Num mx) \<Rightarrow> nullAsZero score \<le> mx
      | (NaN, NaN) \<Rightarrow> False)"

definition filterItem :: "filterMenu \<Rightarrow> item \<Rightarrow> bool" where
  "filterItem fm it =
     (if fm_column fm = Some ''sender'' \<and> fm_value fm \<noteq> [] then
        includes_str (toLowerCase (item_sender it)) (toLowerCase (fm_value fm))
      else if fm_column fm = Some ''reviewer'' \<and> fm_value fm \<noteq> [] then
        includes_str (toLowerCase (item_reviewer it)) (toLowerCase (fm_value fm))
      else if fm_column fm = Some ''status'' \<and> fm_value fm \<noteq> [] then
        item_status it = fm_value fm
      else if fm_column fm = Some ''score'' \<and> fm_value fm \<noteq> [] \<and> item_type it = ReviewRow then
        inScoreRange (fm_value fm) (item_score it)
      else True)"

definition filtered :: "db \<Rightarrow> filterMenu \<Rightarrow> item list" where
  "filtered dbData fm = filter (filterItem fm) (allItems dbData)"

subsection \<open>Sort\<close>

datatype direction = Asc | Desc | NoDirection

record sortState =
  sort_column :: "string option"
  sort_direction :: direction

text \<open>
  \<open>a[sort.column]\<close> for the seven columns compared as they are: a string, or \<open>null\<close>
  for a date that is not set.
\<close>

definition columnValue :: "string \<Rightarrow> item \<Rightarrow> string option" where
  "columnValue col it =
     (if col = ''sender'' then Some (item_sender it)
      else if col = ''reviewer'' then Some (item_reviewer it)
      else if col = ''submissionLink'' then Some (item_submissionLink it)
      else if col = ''submissionDate'' then Some (item_submissionDate it)
      else if col = ''pickupDate'' then item_pickupDate it
      else if col = ''correctionDate'' then item_correctionDate it
      else Some (item_status it))"

text \<open>\<open>x - y\<close> on numbers, and the number a string or \<open>null\<close> operand is converted to.\<close>

definition minus_num :: "jsnum \<Rightarrow> jsnum \<Rightarrow> jsnum" where
  "minus_num x y = (case (x, y) of (Num a, Num b) \<Rightarrow> Num (a - b) | _ \<Rightarrow> NaN)"

definition toNumber :: "string option \<Rightarrow> jsnum" where
  "toNumber v = (case v of None \<Rightarrow> Num 0 | Some s \<Rightarrow> Number s)"

text \<open>
  The end of the comparator, from \<open>typeof aValue === 'string'\<close> on, for the seven
  columns above. \<open>localeCompare\<close> is the browser's collation, a parameter here; its
  argument is converted to a string, \<open>null\<close> to \<open>''null''\<close>. When \<open>bValue\<close> is \<open>null\<close> and
  the direction is descending, \<open>bValue.localeCompare\<close> throws a \<open>TypeError\<close>.
\<close>

definition compareValues ::
  "(string \<Rightarrow> string \<Rightarrow> int) \<Rightarrow> direction \<Rightarrow> string option \<Rightarrow> string option \<Rightarrow> error + jsnum" where
  "compareValues localeCompare dir aValue bValue =
     (case aValue of
        Some a \<Rightarrow>
          if dir = Asc then Inr (Num (localeCompare a (case bValue of None \<Rightarrow> ''null'' | Some b \<Rightarrow> b)))
          else (case bValue of None \<Rightarrow> Inl TypeError | Some b \<Rightarrow> Inr (Num (localeCompare b a)))
      | None \<Rightarrow>
          Inr (if dir = Asc then minus_num (toNumber aValue) (toNumber bValue)
               else minus_num (toNumber bValue) (toNumber aValue)))"

definition sortScore :: "item \<Rightarrow> int" where
  "sortScore it =
     (if item_type it = ReviewRow \<and> item_score it \<noteq> None then nullAsZero (item_score it) else -1)"

definition sortCommentLength :: "item \<Rightarrow> int" where
  "sortCommentLength it = (if item_type it = ReviewRow then int (length (item_comment it)) else 0)"

definition compareItems ::
  "(string \<Rightarrow> string \<Rightarrow> int) \<Rightarrow> sortState \<Rightarrow> item \<Rightarrow> item \<Rightarrow> error + jsnum" where
  "compareItems localeCompare srt a b =
     (case sort_column srt of
        None \<Rightarrow> Inr (Num 0)
      | Some col \<Rightarrow>
          if col = [] \<or> sort_direction srt = NoDirection then Inr (Num 0)
          else if col \<in> set [''sender'', ''reviewer'', ''submissionLink'', ''submissionDate'',
                              ''pickupDate'', ''correctionDate'', ''status''] then
            compareValues localeCompare (sort_direction srt) (columnValue col a) (columnValue col b)
          else if col = ''score'' then
            Inr (Num (if sort_direction srt = Asc then sortScore a - sortScore b
                      else sortScore b - sortScore a))
          else if col = ''comment'' then
            Inr (Num (if sort_direction srt = Asc then sortCommentLength a - sortCommentLength b
                      else sortCommentLength b - sortCommentLength a))
          else Inr (Num 0))"

text \<open>
  \<open>Array.prototype.sort\<close> with a comparator, as a stable insertion sort: each element
  is put behind the elements it does not compare below (a comparator result that is
  \<open>NaN\<close> counts as \<open>0\<close>), and an exception of the comparator ends the sort. Which pairs
  an engine compares is its own choice; the theorems below use only that the result
  is a rearrangement of the input, and is the input when every comparison gives \<open>0\<close>.
\<close>

definition isNegative :: "jsnum \<Rightarrow> bool" where
  "isNegative v = (case v of NaN \<Rightarrow> False | Num n \<Rightarrow> n < 0)"

fun insertSorted :: "('a \<Rightarrow> 'a \<Rightarrow> error + jsnum) \<Rightarrow> 'a \<Rightarrow> 'a list \<Rightarrow> error + 'a list" where
  "insertSorted cmp x [] = Inr [x]"
| "insertSorted cmp x (y # ys) =
     (case cmp x y of
        Inl e \<Rightarrow> Inl e
      | Inr v \<Rightarrow>
          if isNegative v then Inr (x # y # ys)
          else (case insertSorted cmp x ys of
                  Inl e \<Rightarrow> Inl e
                | Inr zs \<Rightarrow> Inr (y # zs)))"

fun arraySort :: "('a \<Rightarrow> 'a \<Rightarrow> error + jsnum) \<Rightarrow> 'a list \<Rightarrow> 'a list \<Rightarrow> error + 'a list" where
  "arraySort cmp acc [] = Inr acc"
| "arraySort cmp acc (x # xs) =
     (case insertSorted cmp x acc of
        Inl e \<Rightarrow> Inl e
      | Inr acc' \<Rightarrow> arraySort cmp acc' xs)"

definition filteredAndSortedReviews ::
  "(string \<Rightarrow> string \<Rightarrow> int) \<Rightarrow> db \<Rightarrow> filterMenu \<Rightarrow> sortState \<Rightarrow> error + item list" where
  "filteredAndSortedReviews localeCompare dbData fm srt =
     arraySort (compareItems localeCompare srt) [] (filtered dbData fm)"

section \<open>The export formatter: \<open>handleExportToExcel\<close>\<close>

text \<open>
  The nine headers, as the source spells them: \<open>Hodnocen\<acute>i\<close>, \<open>Koment\<acute>a\<check>r\<close>,
  \<open>Datum odesl\<acute>an\<acute>i\<close> and \<open>Datum vyzvednut\<acute>i\<close> carry diacritics (i-acute is UTF-8
  \<open>C3 AD\<close>, a-acute \<open>C3 A1\<close>, r-caron \<open>C5 99\<close>).
\<close>

definition headers :: "string list" where
  "headers =
     [''Odesilatel'',
      ''Odkaz'',
      ''Recenzent'',
      ''Stav recenze'',
      ''Hodnocen'' @ [CHR 0xC3, CHR 0xAD],
      ''Koment'' @ [CHR 0xC3, CHR 0xA1, CHR 0xC5, CHR 0x99],
      ''Datum odesl'' @ [CHR 0xC3, CHR 0xA1] @ ''n'' @ [CHR 0xC3, CHR 0xAD],
      ''Datum vyzvednut'' @ [CHR 0xC3, CHR 0xAD],
      ''Datum opravy'']"

text \<open>The default comment \<open>Z\<check>adn\<acute>a pozn\<acute>amka\<close> (Z-caron is UTF-8 \<open>C5 BD\<close>).\<close>

definition labelZadnaPoznamka :: string where
  "labelZadnaPoznamka =
     [CHR 0xC5, CHR 0xBD] @ [CHR 0xC3, CHR 0xA1] @ ''dn'' @ [CHR 0xC3, CHR 0xA1]
       @ '' pozn'' @ [CHR 0xC3, CHR 0xA1] @ ''mka''"

text \<open>
  The object built for one row: its keys, in the order of the object literal, with their
  values. The keys are plain ASCII (\<open>hodnoceni\<close>, \<open>komentar\<close>, \<open>datum_odeslani\<close>,
  \<open>datum_vyzvednuti\<close>).
\<close>

definition exportRow :: "settings \<Rightarrow> item \<Rightarrow> (string \<times> string) list" where
  "exportRow st it =
     (if item_type it = SubmissionRow then
        [(''odesilatel'', item_sender it),
         (''odkaz'', item_submissionLink it),
         (''recenzent'', ''N/A''),
         (''stav_recenze'', labelNevyzvednuto),
         (''hodnoceni'', ''N/A''),
         (''komentar'', ''N/A''),
         (''datum_odeslani'', orElseStr (item_submissionDate it) ''N/A''),
         (''datum_vyzvednuti'', ''N/A''),
         (''datum_opravy'', ''N/A'')]
      else
        [(''odesilatel'', orElseStr (item_sender it) ''N/A''),
         (''odkaz'', orElseStr (item_submissionLink it) ''N/A''),
         (''recenzent'', orElseStr (item_reviewer it) ''N/A''),
         (''stav_recenze'',
            if item_status it = ''finished'' then labelZkontrolovano else labelVyzvednuto),
         (''hodnoceni'',
            case item_score it of
              Some n \<Rightarrow> showInt n @ '' / '' @ showInt (maxScore st)
            | None \<Rightarrow> ''N/A''),
         (''komentar'', orElseStr (item_comment it) labelZadnaPoznamka),
         (''datum_odeslani'', orElseStr (item_submissionDate it) ''N/A''),
         (''datum_vyzvednuti'', orElse (item_pickupDate it) ''N/A''),
         (''datum_opravy'', orElse (item_correctionDate it) ''N/A'')])"

text \<open>
  One quoted field: the key is computed from the header
  (\<open>header.toLowerCase().replace(/ /g, '_')\<close>), the value is \<open>row[key]\<close>, and a key the
  object does not have gives \<open>undefined\<close>, which \<open>(value || '')\<close> turns into the empty
  string. Quotes (\<open>0x22\<close>) are doubled.
\<close>

definition headerKey :: "string \<Rightarrow> string" where
  "headerKey header = replaceAll (CHR '' '') ''_'' (toLowerCase header)"

definition quoted :: "string \<Rightarrow> string" where
  "quoted s = [CHR 0x22] @ s @ [CHR 0x22]"

definition csvValue :: "(string \<times> string) list \<Rightarrow> string \<Rightarrow> string" where
  "csvValue row header =
     (let val = map_of row (headerKey header) in
      quoted (replaceAll (CHR 0x22) [CHR 0x22, CHR 0x22] (case val of None \<Rightarrow> [] | Some v \<Rightarrow> v)))"

definition csvString :: "(string \<times> string) list list \<Rightarrow> string" where
  "csvString rows =
     join [CHR 0x0A]
       (join '';'' headers # map (\<lambda>row. join '';'' (map (csvValue row) headers)) rows)"

text \<open>
  The content of the downloaded file \<open>prehled_hodnoceni.csv\<close>: the byte-order mark and
  the text. The rows are those of \<open>filteredAndSortedReviews\<close>, whose exception, if any,
  ends the handler.
\<close>

definition handleExportToExcel ::
  "(string \<Rightarrow> string \<Rightarrow> int) \<Rightarrow> db \<Rightarrow> filterMenu \<Rightarrow> sortState \<Rightarrow> error + string" where
  "handleExportToExcel localeCompare dbData fm srt =
     (case filteredAndSortedReviews localeCompare dbData fm srt of
        Inl e \<Rightarrow> Inl e
      | Inr items \<Rightarrow>
          Inr ([CHR 0xEF, CHR 0xBB, CHR 0xBF]
                 @ csvString (map (exportRow (settings dbData)) items)))"

section \<open>The sort state: \<open>handleSort\<close>\<close>

definition handleSort :: "string \<Rightarrow> sortState \<Rightarrow> sortState" where
  "handleSort column prev =
     (if sort_column prev = Some column then
        (if sort_direction prev = Asc then \<lparr> sort_column = Some column, sort_direction = Desc \<rparr>
         else if sort_direction prev = Desc then \<lparr> sort_column = None, sort_direction = NoDirection \<rparr>
         else \<lparr> sort_column = Some column, sort_direction = Asc \<rparr>)
      else \<lparr> sort_column = Some column, sort_direction = Asc \<rparr>)"

section \<open>Remote writes and the application state\<close>

text \<open>
  The writes the handlers send to Firestore. \<open>AddDocReview\<close> carries the new document
  with the id the store gives it; \<open>UpdateDocReview\<close> carries the four fields
  \<open>score\<close>, \<open>comment\<close>, \<open>status\<close>, \<open>correctionDate\<close>.
\<close>

datatype remoteWrite =
    AddDocReview review
  | UpdateSubmissionPickupDate string string
  | UpdateSubmissionCorrectionDate string string
  | UpdateDocReview string int string string string
  | DeleteDocReview string
  | DeleteDocSubmission string
  | SetDocSettings settings

text \<open>
  What a write does to the store when it is applied. \<open>updateDoc\<close> fails on a document
  that does not exist; \<open>deleteDoc\<close> of an absent document changes nothing.
\<close>

definition applyWrite :: "remoteWrite \<Rightarrow> db \<Rightarrow> db option" where
  "applyWrite w d =
     (case w of
        AddDocReview r \<Rightarrow> Some (d\<lparr>reviews := reviews d @ [r]\<rparr>)
      | UpdateSubmissionPickupDate sid date \<Rightarrow>
          if list_ex (\<lambda>s. sub_id s = sid) (submissions d) then
            Some (d\<lparr>submissions :=
                      map (\<lambda>s. if sub_id s = sid then s\<lparr>sub_pickupDate := Some date\<rparr> else s)
                        (submissions d)\<rparr>)
          else None
      | UpdateSubmissionCorrectionDate sid date \<Rightarrow>
          if list_ex (\<lambda>s. sub_id s = sid) (submissions d) then
            Some (d\<lparr>submissions :=
                      map (\<lambda>s. if sub_id s = sid then s\<lparr>sub_correctionDate := Some date\<rparr> else s)
                        (submissions d)\<rparr>)
          else None
      | UpdateDocReview rid score comment status date \<Rightarrow>
          if list_ex (\<lambda>r. rev_id r = rid) (reviews d) then
            Some (d\<lparr>reviews :=
                      map (\<lambda>r. if rev_id r = rid
                                then r\<lparr>rev_score := Some score, rev_comment := comment,
                                       rev_status := status, rev_correctionDate := Some date\<rparr>
                                else r)
                        (reviews d)\<rparr>)
          else None
      | DeleteDocReview rid \<Rightarrow> Some (d\<lparr>reviews := filter (\<lambda>r. rev_id r \<noteq> rid) (reviews d)\<rparr>)
      | DeleteDocSubmission sid \<Rightarrow>
          Some (d\<lparr>submissions := filter (\<lambda>s. sub_id s \<noteq> sid) (submissions d)\<rparr>)
      | SetDocSettings st \<Rightarrow> Some (d\<lparr>settings := st\<rparr>))"

text \<open>
  The messages of \<open>showMessage\<close>, by what they say (the texts are Czech):
  nothing is available to review; the assignment failed; the score must be within
  \<open>0\<close> and the maximum (which the text names); sending the review failed; the settings
  are not valid; the settings were saved; saving the settings failed; deleting the
  submission failed.
\<close>

datatype message =
    MsgNoWorkAvailable
  | MsgAssignFailed
  | MsgScoreOutOfRange int
  | MsgSubmitReviewFailed
  | MsgSettingsInvalid
  | MsgSettingsSaved
  | MsgSettingsFailed
  | MsgDeleteSubmissionFailed

datatype action = DeleteSubmissionAction string | DeleteReviewAction string | DeleteAllDataAction

text \<open>
  The state a handler runs in: \<open>app_remote\<close> is the content of Firestore,
  \<open>app_dbData\<close> the cache that the snapshot listeners fill, \<open>app_issued\<close> the writes
  sent so far (a trace, which the source does not keep), the rest the React state.
\<close>

record app =
  app_remote :: db
  app_dbData :: db
  app_issued :: "remoteWrite list"
  app_currentUser :: "string option"
  app_currentReviewId :: "string option"
  app_reviewScore :: string
  app_reviewComment :: string
  app_reviewModalOpen :: bool
  app_confirmModalOpen :: bool
  app_confirmMessage :: "message option"
  app_pendingConfirmAction :: "action option"

text \<open>
  What a handler does not decide: whether the store accepts a write (the network and
  the security rules), whether \<open>getDocs\<close> succeeds, the date of \<open>getTodayDate()\<close>, the
  value of \<open>Math.random()\<close>, and the id the store gives to a document added by
  \<open>addDoc\<close>.
\<close>

record env =
  env_accepts :: "remoteWrite \<Rightarrow> bool"
  env_readable :: bool
  env_today :: string
  env_random :: rat
  env_newId :: string

text \<open>
  An awaited write: it is sent, and either applied (\<open>True\<close>) or answered by an
  exception (\<open>False\<close>), which leaves the store as it was.
\<close>

definition issue :: "env \<Rightarrow> remoteWrite \<Rightarrow> app \<Rightarrow> bool \<times> app" where
  "issue e w a =
     (let a' = a\<lparr>app_issued := app_issued a @ [w]\<rparr> in
      if env_accepts e w then
        (case applyWrite w (app_remote a) of
           Some d \<Rightarrow> (True, a'\<lparr>app_remote := d\<rparr>)
         | None \<Rightarrow> (False, a'))
      else (False, a'))"

definition showMessage :: "message \<Rightarrow> app \<Rightarrow> app" where
  "showMessage m a =
     a\<lparr>app_confirmMessage := Some m, app_pendingConfirmAction := None, app_confirmModalOpen := True\<rparr>"

section \<open>The assignment selector: \<open>handleGetWorkToReview\<close>\<close>

definition availableSubmissions :: "db \<Rightarrow> string \<Rightarrow> submission list" where
  "availableSubmissions dbData email =
     filter
       (\<lambda>s. sub_author s \<noteq> email
            \<and> \<not> list_ex (\<lambda>r. rev_submissionId r = sub_id s \<and> rev_reviewer r = email) (reviews dbData))
       (submissions dbData)"

text \<open>
  \<open>xs[Math.floor(rnd * xs.length)]\<close>: \<open>undefined\<close> (\<open>None\<close>) when the index is not one
  of the array, which a \<open>rnd\<close> from \<open>0\<close> up to but not including \<open>1\<close> never gives.
\<close>

definition pickRandom :: "rat \<Rightarrow> 'a list \<Rightarrow> 'a option" where
  "pickRandom rnd xs =
     (let i = \<lfloor>rnd * of_nat (length xs)\<rfloor> in
      if 0 \<le> i \<and> i < int (length xs) then Some (xs ! nat i) else None)"

definition newReview :: "env \<Rightarrow> string \<Rightarrow> string \<Rightarrow> review" where
  "newReview e sid email =
     \<lparr> rev_id = env_newId e,
       rev_submissionId = sid,
       rev_reviewer = email,
       rev_status = ''assigned'',
       rev_score = None,
       rev_comment = [],
       rev_pickupDate = env_today e,
       rev_correctionDate = None \<rparr>"

definition handleGetWorkToReview :: "env \<Rightarrow> app \<Rightarrow> app" where
  "handleGetWorkToReview e a =
     (case app_currentUser a of
        None \<Rightarrow> a
      | Some email \<Rightarrow>
          (let available = availableSubmissions (app_dbData a) email in
           if length available = 0 then showMessage MsgNoWorkAvailable a
           else
             (case pickRandom (env_random e) available of
                None \<Rightarrow> showMessage MsgAssignFailed a
              | Some newSubmission \<Rightarrow>
                  (case issue e (AddDocReview (newReview e (sub_id newSubmission) email)) a of
                     (False, a1) \<Rightarrow> showMessage MsgAssignFailed a1
                   | (True, a1) \<Rightarrow>
                       (case issue e (UpdateSubmissionPickupDate (sub_id newSubmission) (env_today e)) a1 of
                          (False, a2) \<Rightarrow> showMessage MsgAssignFailed a2
                        | (True, a2) \<Rightarrow> a2)))))"

section \<open>Finishing a review: \<open>handleSubmitReview\<close>\<close>

definition finishReviewModal :: "app \<Rightarrow> app" where
  "finishReviewModal a = a\<lparr>app_reviewModalOpen := False, app_reviewScore := [], app_reviewComment := []\<rparr>"

definition handleSubmitReview :: "env \<Rightarrow> app \<Rightarrow> app" where
  "handleSubmitReview e a =
     (case app_currentReviewId a of
        None \<Rightarrow> a
      | Some currentReviewId \<Rightarrow>
          if currentReviewId = [] then a
          else
            (let score = parseInt (app_reviewScore a);
                 comment = trim (app_reviewComment a);
                 mx = maxScore (settings (app_dbData a))
             in case score of
                  NaN \<Rightarrow> showMessage (MsgScoreOutOfRange mx) a
                | Num n \<Rightarrow>
                    if n < 0 \<or> n > mx then showMessage (MsgScoreOutOfRange mx) a
                    else
                      (case issue e (UpdateDocReview currentReviewId n comment ''finished'' (env_today e)) a of
                         (False, a1) \<Rightarrow> showMessage MsgSubmitReviewFailed a1
                       | (True, a1) \<Rightarrow>
                           (case find (\<lambda>r. rev_id r = currentReviewId) (reviews (app_dbData a)) of
                              None \<Rightarrow> finishReviewModal a1
                            | Some review \<Rightarrow>
                                (case issue e (UpdateSubmissionCorrectionDate (rev_submissionId review)
                                                (env_today e)) a1 of
                                   (False, a2) \<Rightarrow> showMessage MsgSubmitReviewFailed a2
                                 | (True, a2) \<Rightarrow> finishReviewModal a2)))))"

section \<open>Saving the settings: \<open>handleSaveSettings\<close>\<close>

text \<open>
  The two arguments are the values of the inputs \<open>review-count\<close> and \<open>max-score\<close>.
\<close>

definition handleSaveSettings :: "env \<Rightarrow> string \<Rightarrow> string \<Rightarrow> app \<Rightarrow> app" where
  "handleSaveSettings e reviewCountInput maxScoreInput a =
     (case parseInt reviewCountInput of
        NaN \<Rightarrow> showMessage MsgSettingsInvalid a
      | Num reviewCount \<Rightarrow>
          if reviewCount \<le> 0 then showMessage MsgSettingsInvalid a
          else
            (case parseInt maxScoreInput of
               NaN \<Rightarrow> showMessage MsgSettingsInvalid a
             | Num mx \<Rightarrow>
                 if mx < 0 \<or> mx > 100 then showMessage MsgSettingsInvalid a
                 else
                   (case issue e (SetDocSettings \<lparr> reviewsPerSubmission = reviewCount, maxScore = mx \<rparr>) a of
                      (False, a1) \<Rightarrow> showMessage MsgSettingsFailed a1
                    | (True, a1) \<Rightarrow> showMessage MsgSettingsSaved a1)))"

section \<open>Deleting a submission: \<open>handleDeleteSubmission\<close>\<close>

text \<open>The loop over \<open>reviewsSnapshot.docs\<close>: it ends at the first delete that fails.\<close>

fun deleteReviews :: "env \<Rightarrow> review list \<Rightarrow> app \<Rightarrow> bool \<times> app" where
  "deleteReviews e [] a = (True, a)"
| "deleteReviews e (reviewDoc # docs) a =
     (case issue e (DeleteDocReview (rev_id reviewDoc)) a of
        (False, a1) \<Rightarrow> (False, a1)
      | (True, a1) \<Rightarrow> deleteReviews e docs a1)"

text \<open>
  The query \<open>where('submissionId', '==', id)\<close> is answered by the store, not by the
  cache.
\<close>

definition handleDeleteSubmission :: "env \<Rightarrow> string \<Rightarrow> app \<Rightarrow> app" where
  "handleDeleteSubmission e sid a =
     (if \<not> env_readable e then showMessage MsgDeleteSubmissionFailed a
      else
        (let docs = filter (\<lambda>r. rev_submissionId r = sid) (reviews (app_remote a)) in
         case deleteReviews e docs a of
           (False, a1) \<Rightarrow> showMessage MsgDeleteSubmissionFailed a1
         | (True, a1) \<Rightarrow>
             (case issue e (DeleteDocSubmission sid) a1 of
                (False, a2) \<Rightarrow> showMessage MsgDeleteSubmissionFailed a2
              | (True, a2) \<Rightarrow> a2\<lparr>app_confirmModalOpen := False\<rparr>)))"

section \<open>Predicates used in the statements\<close>

text \<open>
  What the score filter \<open>10-50\<close> lets through: every placeholder row, and the review
  rows whose score is a number from 10 to 50.
\<close>

definition admittedBy_10_50 :: "item \<Rightarrow> bool" where
  "admittedBy_10_50 it =
     (item_type it = SubmissionRow
      \<or> (case item_score it of None \<Rightarrow> False | Some n \<Rightarrow> 10 \<le> n \<and> n \<le> 50))"

text \<open>
  The settings inputs as the claim reads them: both parse to numbers, the review count
  is positive and the maximum score is from 0 to 100.
\<close>

definition validSettingsInput :: "string \<Rightarrow> string \<Rightarrow> bool" where
  "validSettingsInput reviewCountInput maxScoreInput =
     (case parseInt reviewCountInput of
        NaN \<Rightarrow> False
      | Num n \<Rightarrow>
          (case parseInt maxScoreInput of
             NaN \<Rightarrow> False
           | Num m \<Rightarrow> 0 < n \<and> 0 \<le> m \<and> m \<le> 100))"

text \<open>
  A score input that \<open>parseInt\<close> reads as a number from 0 to the maximum score, and a
  text that is an integer as a whole (an optional sign and digits, nothing else).
\<close>

definition validScoreInput :: "string \<Rightarrow> int \<Rightarrow> bool" where
  "validScoreInput scoreInput mx =
     (case parseInt scoreInput of NaN \<Rightarrow> False | Num n \<Rightarrow> 0 \<le> n \<and> n \<le> mx)"

definition isIntegerText :: "string \<Rightarrow> bool" where
  "isIntegerText s = (snd (stripSign s) \<noteq> [] \<and> list_all isDigit (snd (stripSign s)))"

section \<open>Concrete inputs\<close>

text \<open>The data that the witnesses and counterexamples below are evaluated on.\<close>

definition statusOdeslano :: string where
  "statusOdeslano = ''Odesl'' @ [CHR 0xC3, CHR 0xA1] @ ''no''"

definition sub1 :: submission where
  "sub1 = \<lparr> sub_id = ''s1'', sub_author = ''alice@example.com'', sub_link = ''http://a.example/1'',
            sub_status = statusOdeslano, sub_reviewCount = 0, sub_submissionDate = ''2024-01-01'',
            sub_pickupDate = Some ''2024-01-02'', sub_correctionDate = Some ''2024-01-03'' \<rparr>"

definition sub2 :: submission where
  "sub2 = \<lparr> sub_id = ''s2'', sub_author = ''bob@example.com'', sub_link = ''http://b.example/2'',
            sub_status = statusOdeslano, sub_reviewCount = 0, sub_submissionDate = ''2024-01-01'',
            sub_pickupDate = None, sub_correctionDate = None \<rparr>"

definition rev1 :: review where
  "rev1 = \<lparr> rev_id = ''r1'', rev_submissionId = ''s1'', rev_reviewer = ''bob@example.com'',
            rev_status = ''finished'', rev_score = Some 85, rev_comment = ''ok'',
            rev_pickupDate = ''2024-01-02'', rev_correctionDate = Some ''2024-01-03'' \<rparr>"

definition rev2 :: review where
  "rev2 = \<lparr> rev_id = ''r2'', rev_submissionId = ''s1'', rev_reviewer = ''carol@example.com'',
            rev_status = ''finished'', rev_score = Some 40, rev_comment = [],
            rev_pickupDate = ''2024-01-02'', rev_correctionDate = Some ''2024-01-04'' \<rparr>"

definition rev3 :: review where
  "rev3 = \<lparr> rev_id = ''r3'', rev_submissionId = ''s9'', rev_reviewer = ''carol@example.com'',
            rev_status = ''assigned'', rev_score = None, rev_comment = [],
            rev_pickupDate = ''2024-01-05'', rev_correctionDate = None \<rparr>"

definition defaultSettings :: settings where
  "defaultSettings = \<lparr> reviewsPerSubmission = 3, maxScore = 100 \<rparr>"

definition exampleDb :: db where
  "exampleDb = \<lparr> submissions = [sub1, sub2], reviews = [rev1, rev2, rev3], settings = defaultSettings \<rparr>"

definition initialFilter :: filterMenu where
  "initialFilter = \<lparr> fm_column = None, fm_open = False, fm_value = [] \<rparr>"

definition initialSort :: sortState where
  "initialSort = \<lparr> sort_column = None, sort_direction = NoDirection \<rparr>"

definition scoreFilter :: filterMenu where
  "scoreFilter = \<lparr> fm_column = Some ''score'', fm_open = True, fm_value = ''10-50'' \<rparr>"

definition exportDb :: db where
  "exportDb = \<lparr> submissions = [sub1, sub2], reviews = [rev1], settings = defaultSettings \<rparr>"

definition exampleEnv :: env where
  "exampleEnv = \<lparr> env_accepts = (\<lambda>w. True), env_readable = True, env_today = ''2024-01-10'',
                  env_random = 1 / 2, env_newId = ''r9'' \<rparr>"

definition exampleApp :: "string \<Rightarrow> app" where
  "exampleApp email =
     \<lparr> app_remote = exampleDb, app_dbData = exampleDb, app_issued = [],
       app_currentUser = Some email, app_currentReviewId = None,
       app_reviewScore = [], app_reviewComment = [], app_reviewModalOpen = False,
       app_confirmModalOpen = False, app_confirmMessage = None, app_pendingConfirmAction = None \<rparr>"

definition reviewingApp :: "string \<Rightarrow> app" where
  "reviewingApp scoreInput =
     (exampleApp ''carol@example.com'')
       \<lparr>app_currentReviewId := Some ''r2'', app_reviewScore := scoreInput,
        app_reviewComment := ''fine'', app_reviewModalOpen := True\<rparr>"

section \<open>Properties of the view projector\<close>

lemma insertSorted_mset:
  "insertSorted cmp x ys = Inr zs \<Longrightarrow> mset zs = add_mset x (mset ys)"
  by (induction ys arbitrary: zs) (auto split: sum.splits if_splits)

lemma arraySort_mset:
  "arraySort cmp acc xs = Inr zs \<Longrightarrow> mset zs = mset acc + mset xs"
proof (induction xs arbitrary: acc)
  case Nil
  then show ?case by simp
next
  case (Cons x xs)
  then obtain acc' where a: "insertSorted cmp x acc = Inr acc'" and b: "arraySort cmp acc' xs = Inr zs"
    by (auto split: sum.splits)
  from Cons.IH [OF b] insertSorted_mset [OF a] show ?case by simp
qed

lemma insertSorted_all_zero:
  assumes "\<And>y. cmp x y = Inr (Num 0)"
  shows "insertSorted cmp x ys = Inr (ys @ [x])"
  by (induction ys) (simp_all add: assms isNegative_def)

lemma arraySort_all_zero:
  assumes "\<And>x y. cmp x y = Inr (Num 0)"
  shows "arraySort cmp acc xs = Inr (acc @ xs)"
  by (induction xs arbitrary: acc) (simp_all add: insertSorted_all_zero [of cmp, OF assms])

lemma compareItems_inactive:
  assumes "sort_column srt = None \<or> sort_direction srt = NoDirection"
  shows "compareItems lc srt a b = Inr (Num 0)"
proof (cases "sort_column srt")
  case None
  then show ?thesis by (simp add: compareItems_def)
next
  case (Some col)
  with assms have "sort_direction srt = NoDirection" by simp
  with Some show ?thesis by (simp add: compareItems_def)
qed

lemma filterItem_inactive:
  "fm_column fm = None \<or> fm_value fm = [] \<Longrightarrow> filterItem fm it"
  by (auto simp: filterItem_def)

lemma length_rowsForSubmission:
  "length (rowsForSubmission revs s) =
     length (filter (\<lambda>r. rev_submissionId r = sub_id s) revs)
     + (if list_ex (\<lambda>r. rev_submissionId r = sub_id s) revs then 0 else 1)"
  by (auto simp: rowsForSubmission_def Let_def list_ex_iff filter_empty_conv)

lemma length_filter_disj:
  "(\<And>x. \<not> (P x \<and> Q x)) \<Longrightarrow>
   length (filter (\<lambda>x. P x \<or> Q x) xs) = length (filter P xs) + length (filter Q xs)"
  by (induction xs) auto

lemma sum_matching_reviews:
  "distinct (map sub_id subs) \<Longrightarrow>
   (\<Sum>s\<leftarrow>subs. length (filter (\<lambda>r. rev_submissionId r = sub_id s) revs))
     = length (filter (\<lambda>r. rev_submissionId r \<in> sub_id ` set subs) revs)"
proof (induction subs)
  case Nil
  then show ?case by simp
next
  case (Cons s subs)
  have "length (filter (\<lambda>r. rev_submissionId r = sub_id s \<or> rev_submissionId r \<in> sub_id ` set subs) revs)
        = length (filter (\<lambda>r. rev_submissionId r = sub_id s) revs)
          + length (filter (\<lambda>r. rev_submissionId r \<in> sub_id ` set subs) revs)"
    using Cons.prems by (intro length_filter_disj) auto
  with Cons show ?case by simp
qed

lemma sum_list_if_filter:
  "(\<Sum>x\<leftarrow>xs. if P x then 0 else (1::nat)) = length (filter (\<lambda>x. \<not> P x) xs)"
  by (induction xs) auto

lemma length_allItems:
  assumes "distinct (map sub_id (submissions d))"
  shows "length (allItems d) =
     length (filter (\<lambda>r. rev_submissionId r \<in> sub_id ` set (submissions d)) (reviews d))
     + length (filter (\<lambda>s. \<not> list_ex (\<lambda>r. rev_submissionId r = sub_id s) (reviews d)) (submissions d))"
proof -
  let ?m = "\<lambda>s. length (filter (\<lambda>r. rev_submissionId r = sub_id s) (reviews d))"
  let ?z = "\<lambda>s. if list_ex (\<lambda>r. rev_submissionId r = sub_id s) (reviews d) then 0 else (1::nat)"
  have "length (allItems d) = (\<Sum>s\<leftarrow>submissions d. length (rowsForSubmission (reviews d) s))"
    by (simp only: allItems_def length_concat map_map comp_def)
  also have "\<dots> = (\<Sum>s\<leftarrow>submissions d. ?m s + ?z s)"
    by (simp only: length_rowsForSubmission)
  also have "\<dots> = (\<Sum>s\<leftarrow>submissions d. ?m s) + (\<Sum>s\<leftarrow>submissions d. ?z s)"
    by (rule sum_list_addf)
  also have "(\<Sum>s\<leftarrow>submissions d. ?z s)
     = length (filter (\<lambda>s. \<not> list_ex (\<lambda>r. rev_submissionId r = sub_id s) (reviews d)) (submissions d))"
    by (rule sum_list_if_filter)
  also have "(\<Sum>s\<leftarrow>submissions d. ?m s)
     = length (filter (\<lambda>r. rev_submissionId r \<in> sub_id ` set (submissions d)) (reviews d))"
    by (rule sum_matching_reviews [OF assms])
  finally show ?thesis .
qed


lemma sorted_inactive:
  assumes "sort_column srt = None \<or> sort_direction srt = NoDirection"
  shows "filteredAndSortedReviews lc d fm srt = Inr (filtered d fm)"
  unfolding filteredAndSortedReviews_def
  using arraySort_all_zero [of "compareItems lc srt" "[]" "filtered d fm"] compareItems_inactive [OF assms]
  by simp

lemma sorted_mset:
  "filteredAndSortedReviews lc d fm srt = Inr rows \<Longrightarrow> mset rows = mset (filtered d fm)"
  unfolding filteredAndSortedReviews_def by (drule arraySort_mset) simp

lemma filtered_inactive:
  "fm_column fm = None \<or> fm_value fm = [] \<Longrightarrow> filtered d fm = allItems d"
  by (simp add: filtered_def filterItem_inactive)

text \<open>
  Claim C3, as amended. The claim counts every review; the projection joins the reviews
  to the submissions, so a review whose \<open>submissionId\<close> is the id of no cached
  submission gives no row. For submissions with pairwise distinct ids and no active
  filter, a call that returns rows returns as many rows as there are reviews that
  reference a cached submission, plus submissions without a review; and with no active
  sort the call returns.
\<close>
theorem projection_row_count:
  assumes "distinct (map sub_id (submissions dbData))"
    and "fm_column fm = None \<or> fm_value fm = []"
  shows "(sort_column srt = None \<or> sort_direction srt = NoDirection \<longrightarrow>
            (\<exists>rows. filteredAndSortedReviews lc dbData fm srt = Inr rows))
       \<and> (\<forall>rows. filteredAndSortedReviews lc dbData fm srt = Inr rows \<longrightarrow>
            length rows =
              length (filter (\<lambda>r. rev_submissionId r \<in> sub_id ` set (submissions dbData)) (reviews dbData))
              + length (filter (\<lambda>s. \<not> list_ex (\<lambda>r. rev_submissionId r = sub_id s) (reviews dbData))
                         (submissions dbData)))"
proof (intro conjI impI allI)
  assume "sort_column srt = None \<or> sort_direction srt = NoDirection"
  then show "\<exists>rows. filteredAndSortedReviews lc dbData fm srt = Inr rows"
    by (simp add: sorted_inactive)
next
  fix rows
  assume "filteredAndSortedReviews lc dbData fm srt = Inr rows"
  then have "mset rows = mset (allItems dbData)"
    using assms(2) by (simp add: sorted_mset filtered_inactive)
  then have "length rows = length (allItems dbData)"
    by (rule mset_eq_length)
  then show "length rows =
      length (filter (\<lambda>r. rev_submissionId r \<in> sub_id ` set (submissions dbData)) (reviews dbData))
      + length (filter (\<lambda>s. \<not> list_ex (\<lambda>r. rev_submissionId r = sub_id s) (reviews dbData))
                 (submissions dbData))"
    by (simp add: length_allItems [OF assms(1)])
qed

lemma exampleDb_rows:
  "filteredAndSortedReviews (\<lambda>a b. 0) exampleDb initialFilter initialSort
     = Inr [reviewRow sub1 rev1, reviewRow sub1 rev2, placeholderRow sub2]"
  by (simp add: sorted_inactive filtered_inactive initialSort_def initialFilter_def allItems_def
      rowsForSubmission_def exampleDb_def sub1_def sub2_def rev1_def rev2_def rev3_def)

theorem projection_row_count_witness:
  "distinct (map sub_id (submissions exampleDb))
   \<and> filteredAndSortedReviews (\<lambda>a b. 0) exampleDb initialFilter initialSort
       = Inr [reviewRow sub1 rev1, reviewRow sub1 rev2, placeholderRow sub2]
   \<and> length (filter (\<lambda>r. rev_submissionId r \<in> sub_id ` set (submissions exampleDb)) (reviews exampleDb)) = 2
   \<and> length (filter (\<lambda>s. \<not> list_ex (\<lambda>r. rev_submissionId r = sub_id s) (reviews exampleDb))
                (submissions exampleDb)) = 1"
proof -
  have d: "distinct (map sub_id (submissions exampleDb))"
    by (simp add: exampleDb_def sub1_def sub2_def)
  have f: "fm_column initialFilter = None \<or> fm_value initialFilter = []"
    by (simp add: initialFilter_def)
  have n: "length (filter (\<lambda>s. \<not> list_ex (\<lambda>r. rev_submissionId r = sub_id s) (reviews exampleDb))
                (submissions exampleDb)) = 1"
    by (simp add: exampleDb_def sub1_def sub2_def rev1_def rev2_def rev3_def)
  from projection_row_count [OF d f, of initialSort "\<lambda>a b. 0"] exampleDb_rows n
  have "length (filter (\<lambda>r. rev_submissionId r \<in> sub_id ` set (submissions exampleDb)) (reviews exampleDb)) = 2"
    by simp
  with d n exampleDb_rows show ?thesis by simp
qed

theorem projection_row_count_counterexample:
  "filteredAndSortedReviews (\<lambda>a b. 0) exampleDb initialFilter initialSort
       = Inr [reviewRow sub1 rev1, reviewRow sub1 rev2, placeholderRow sub2]
   \<and> length [reviewRow sub1 rev1, reviewRow sub1 rev2, placeholderRow sub2]
       \<noteq> length (reviews exampleDb)
         + length (filter (\<lambda>s. \<not> list_ex (\<lambda>r. rev_submissionId r = sub_id s) (reviews exampleDb))
                (submissions exampleDb))"
  using exampleDb_rows
  by (simp add: exampleDb_def sub1_def sub2_def rev1_def rev2_def rev3_def)

lemma set_rowsForSubmission:
  "row \<in> set (rowsForSubmission revs s) \<Longrightarrow>
     row = placeholderRow s \<or> (\<exists>r\<in>set revs. rev_submissionId r = sub_id s \<and> row = reviewRow s r)"
  by (auto simp: rowsForSubmission_def Let_def split: if_splits)

lemma set_allItems:
  assumes "row \<in> set (allItems d)"
  shows "(\<exists>s\<in>set (submissions d). row = placeholderRow s)
       \<or> (\<exists>s\<in>set (submissions d). \<exists>r\<in>set (reviews d). rev_submissionId r = sub_id s \<and> row = reviewRow s r)"
proof -
  from assms obtain s where s: "s \<in> set (submissions d)" and r: "row \<in> set (rowsForSubmission (reviews d) s)"
    by (auto simp: allItems_def)
  from set_rowsForSubmission [OF r] s show ?thesis by blast
qed

lemma set_filtered_subset: "set (filtered d fm) \<subseteq> set (allItems d)"
  by (simp add: filtered_def)

lemma review_row_origin:
  assumes "row \<in> set (allItems d)" and "item_type row = ReviewRow"
  shows "\<exists>s\<in>set (submissions d). \<exists>r\<in>set (reviews d). rev_submissionId r = sub_id s \<and> row = reviewRow s r"
  using set_allItems [OF assms(1)] assms(2) by (auto simp: placeholderRow_def)

text \<open>
  Claim C10. Whatever the filter and the sort, every review row that
  \<open>filteredAndSortedReviews\<close> returns is built from a cached submission and a cached
  review whose \<open>submissionId\<close> is that submission's id; a review whose
  \<open>submissionId\<close> is the id of no cached submission is the origin of no row. With no
  active sort the call returns.
\<close>
theorem review_rows_reference_cached_submission:
  "(sort_column srt = None \<or> sort_direction srt = NoDirection \<longrightarrow>
      (\<exists>rows. filteredAndSortedReviews lc dbData fm srt = Inr rows))
   \<and> (\<forall>rows. filteredAndSortedReviews lc dbData fm srt = Inr rows \<longrightarrow>
        (\<forall>row\<in>set rows. item_type row = ReviewRow \<longrightarrow>
           (\<exists>s\<in>set (submissions dbData). \<exists>r\<in>set (reviews dbData).
              rev_submissionId r = sub_id s \<and> item_submissionId row = Some (sub_id s) \<and> row = reviewRow s r))
      \<and> (\<forall>r s'. (\<forall>s\<in>set (submissions dbData). sub_id s \<noteq> rev_submissionId r) \<longrightarrow>
             reviewRow s' r \<notin> set rows))"
proof (intro conjI impI allI ballI)
  assume "sort_column srt = None \<or> sort_direction srt = NoDirection"
  then show "\<exists>rows. filteredAndSortedReviews lc dbData fm srt = Inr rows"
    by (simp add: sorted_inactive)
next
  fix rows row
  assume "filteredAndSortedReviews lc dbData fm srt = Inr rows" and "row \<in> set rows" and t: "item_type row = ReviewRow"
  then have "row \<in> set (allItems dbData)"
    using set_filtered_subset [of dbData fm] by (auto dest!: sorted_mset mset_eq_setD)
  from review_row_origin [OF this t] obtain s r where s: "s \<in> set (submissions dbData)"
    and r: "r \<in> set (reviews dbData)" and m: "rev_submissionId r = sub_id s" and e: "row = reviewRow s r"
    by blast
  have "item_submissionId (reviewRow s r) = Some (rev_submissionId r)"
    by (simp add: reviewRow_def)
  with s r m e
  show "\<exists>s\<in>set (submissions dbData). \<exists>r\<in>set (reviews dbData).
          rev_submissionId r = sub_id s \<and> item_submissionId row = Some (sub_id s) \<and> row = reviewRow s r"
    by metis
next
  fix rows and r :: review and s'
  assume res: "filteredAndSortedReviews lc dbData fm srt = Inr rows"
    and orphan: "\<forall>s\<in>set (submissions dbData). sub_id s \<noteq> rev_submissionId r"
  show "reviewRow s' r \<notin> set rows"
  proof
    assume "reviewRow s' r \<in> set rows"
    with res have m: "reviewRow s' r \<in> set (allItems dbData)"
      using set_filtered_subset [of dbData fm] by (auto dest!: sorted_mset mset_eq_setD)
    have "item_type (reviewRow s' r) = ReviewRow" by (simp add: reviewRow_def)
    from review_row_origin [OF m this] obtain s r' where "s \<in> set (submissions dbData)"
      and "rev_submissionId r' = sub_id s" and e: "reviewRow s' r = reviewRow s r'" by blast
    moreover from e have "rev_submissionId r = rev_submissionId r'"
      by (simp add: reviewRow_def)
    ultimately show False using orphan by auto
  qed
qed

theorem review_rows_reference_cached_submission_witness:
  "filteredAndSortedReviews (\<lambda>a b. 0) exampleDb initialFilter initialSort
       = Inr [reviewRow sub1 rev1, reviewRow sub1 rev2, placeholderRow sub2]
   \<and> item_submissionId (reviewRow sub1 rev1) = Some (sub_id sub1)
   \<and> item_submissionId (reviewRow sub1 rev2) = Some (sub_id sub1)
   \<and> reviewRow sub1 rev3 \<notin> set [reviewRow sub1 rev1, reviewRow sub1 rev2, placeholderRow sub2]
   \<and> reviewRow sub2 rev3 \<notin> set [reviewRow sub1 rev1, reviewRow sub1 rev2, placeholderRow sub2]"
proof -
  have o: "\<forall>s\<in>set (submissions exampleDb). sub_id s \<noteq> rev_submissionId rev3"
    by (simp add: exampleDb_def sub1_def sub2_def rev3_def)
  from review_rows_reference_cached_submission [of initialSort "\<lambda>a b. 0" exampleDb initialFilter]
    exampleDb_rows o
  have "reviewRow sub1 rev3 \<notin> set [reviewRow sub1 rev1, reviewRow sub1 rev2, placeholderRow sub2]"
    and "reviewRow sub2 rev3 \<notin> set [reviewRow sub1 rev1, reviewRow sub1 rev2, placeholderRow sub2]"
    by blast+
  then show ?thesis using exampleDb_rows
    by (simp add: reviewRow_def sub1_def rev1_def rev2_def)
qed

lemma scoreRange_10_50: "scoreRange ''10-50'' = (Num 10, Num 50)"
  by code_simp

lemma inScoreRange_10_50:
  "inScoreRange ''10-50'' sc = (case sc of None \<Rightarrow> False | Some n \<Rightarrow> 10 \<le> n \<and> n \<le> 50)"
  by (simp add: inScoreRange_def scoreRange_10_50 nullAsZero_def split: option.splits)

lemma filterItem_score_10_50:
  assumes "fm_column fm = Some ''score''" and "fm_value fm = ''10-50''"
  shows "filterItem fm it = admittedBy_10_50 it"
proof (cases "item_type it")
  case ReviewRow
  with assms show ?thesis
    by (simp add: filterItem_def inScoreRange_10_50 admittedBy_10_50_def)
next
  case SubmissionRow
  with assms show ?thesis
    by (simp add: filterItem_def admittedBy_10_50_def)
qed

text \<open>
  Claim C2, as amended. With the filter column \<open>score\<close> and the value \<open>10-50\<close>, the
  rows returned are the review rows whose score is a number from 10 to 50 and, since the
  score filter is applied to review rows only, every placeholder row. The claim has the
  placeholder rows removed.
\<close>
theorem score_filter_10_50:
  assumes "fm_column fm = Some ''score''" and "fm_value fm = ''10-50''"
  shows "(sort_column srt = None \<or> sort_direction srt = NoDirection \<longrightarrow>
            filteredAndSortedReviews lc dbData fm srt = Inr (filter admittedBy_10_50 (allItems dbData)))
       \<and> (\<forall>rows. filteredAndSortedReviews lc dbData fm srt = Inr rows \<longrightarrow>
            mset rows = mset (filter admittedBy_10_50 (allItems dbData)))"
proof -
  have f: "filtered dbData fm = filter admittedBy_10_50 (allItems dbData)"
    unfolding filtered_def using filterItem_score_10_50 [OF assms] by presburger
  show ?thesis
    using sorted_inactive [of srt lc dbData fm] sorted_mset [of lc dbData fm srt]
    by (simp add: f)
qed

lemma exampleDb_allItems:
  "allItems exampleDb = [reviewRow sub1 rev1, reviewRow sub1 rev2, placeholderRow sub2]"
  by (simp add: allItems_def rowsForSubmission_def exampleDb_def sub1_def sub2_def rev1_def
      rev2_def rev3_def)

lemma exampleDb_admitted:
  "filter admittedBy_10_50 [reviewRow sub1 rev1, reviewRow sub1 rev2, placeholderRow sub2]
     = [reviewRow sub1 rev2, placeholderRow sub2]"
  by (simp add: admittedBy_10_50_def reviewRow_def placeholderRow_def rev1_def rev2_def)

theorem score_filter_10_50_witness:
  "fm_column scoreFilter = Some ''score'' \<and> fm_value scoreFilter = ''10-50''
   \<and> filteredAndSortedReviews (\<lambda>a b. 0) exampleDb scoreFilter initialSort
       = Inr [reviewRow sub1 rev2, placeholderRow sub2]
   \<and> item_score (reviewRow sub1 rev2) = Some 40
   \<and> item_score (reviewRow sub1 rev1) = Some 85"
proof -
  have c: "fm_column scoreFilter = Some ''score''" and v: "fm_value scoreFilter = ''10-50''"
    by (simp_all add: scoreFilter_def)
  have s: "sort_column initialSort = None" by (simp add: initialSort_def)
  have t: "filter admittedBy_10_50 (allItems exampleDb) = [reviewRow sub1 rev2, placeholderRow sub2]"
    by (simp only: exampleDb_allItems exampleDb_admitted)
  from score_filter_10_50 [OF c v, of initialSort "\<lambda>a b. 0" exampleDb] s
  have "filteredAndSortedReviews (\<lambda>a b. 0) exampleDb scoreFilter initialSort
       = Inr (filter admittedBy_10_50 (allItems exampleDb))"
    by blast
  then have "filteredAndSortedReviews (\<lambda>a b. 0) exampleDb scoreFilter initialSort
       = Inr [reviewRow sub1 rev2, placeholderRow sub2]"
    by (simp only: t)
  with c v show ?thesis by (simp add: reviewRow_def rev1_def rev2_def)
qed

lemma exampleDb_score_rows:
  "filteredAndSortedReviews (\<lambda>a b. 0) exampleDb scoreFilter initialSort
       = Inr [reviewRow sub1 rev2, placeholderRow sub2]"
proof -
  have "filtered exampleDb scoreFilter = [reviewRow sub1 rev2, placeholderRow sub2]"
    unfolding filtered_def exampleDb_allItems
    by (simp add: filterItem_def scoreFilter_def inScoreRange_10_50 reviewRow_def
        placeholderRow_def rev1_def rev2_def)
  then show ?thesis
    by (simp add: sorted_inactive initialSort_def)
qed

theorem score_filter_10_50_counterexample:
  "filteredAndSortedReviews (\<lambda>a b. 0) exampleDb scoreFilter initialSort
       = Inr [reviewRow sub1 rev2, placeholderRow sub2]
   \<and> item_type (placeholderRow sub2) = SubmissionRow"
  using exampleDb_score_rows by (simp add: placeholderRow_def)

section \<open>Properties of the export formatter\<close>

lemma headerKey_score: "headerKey (headers ! 4) = ''hodnocen'' @ [CHR 0xC3, CHR 0xAD]"
  by code_simp

lemma map_of_exportRow_score: "map_of (exportRow st it) (''hodnocen'' @ [CHR 0xC3, CHR 0xAD]) = None"
  by (simp add: exportRow_def)

lemma csvValue_score_empty: "csvValue (exportRow st it) (headers ! 4) = quoted []"
  by (simp only: csvValue_def headerKey_score map_of_exportRow_score Let_def) (simp add: replaceAll_def)

lemma exportDb_output:
  "handleExportToExcel (\<lambda>a b. 0) exportDb initialFilter initialSort =
     Inr ([CHR 0xEF, CHR 0xBB, CHR 0xBF] @ join [CHR 0x0A]
       [join '';'' headers,
        join '';'' (map quoted [''alice@example.com'', ''http://a.example/1'', ''bob@example.com'',
                      labelZkontrolovano, [], [], [], [], ''2024-01-03'']),
        join '';'' (map quoted [''bob@example.com'', ''http://b.example/2'', ''N/A'',
                      labelNevyzvednuto, [], [], [], [], ''N/A''])])"
  by code_simp

lemma exportDb_no_score:
  "\<not> includes_str
       ([CHR 0xEF, CHR 0xBB, CHR 0xBF] @ join [CHR 0x0A]
       [join '';'' headers,
        join '';'' (map quoted [''alice@example.com'', ''http://a.example/1'', ''bob@example.com'',
                      labelZkontrolovano, [], [], [], [], ''2024-01-03'']),
        join '';'' (map quoted [''bob@example.com'', ''http://b.example/2'', ''N/A'',
                      labelNevyzvednuto, [], [], [], [], ''N/A''])])
       (quoted ''85 / 100'')"
  by code_simp

lemma exportRow_score_value:
  "map_of (exportRow (settings exportDb) (reviewRow sub1 rev1)) ''hodnoceni'' = Some ''85 / 100''"
  by code_simp

lemma exportRow_placeholder_value:
  "map_of (exportRow (settings exportDb) (placeholderRow sub2)) ''hodnoceni'' = Some ''N/A''"
  by code_simp


text \<open>
  Claim C1, which the code does not meet. The row object holds \<open>85 / 100\<close> (or \<open>N/A\<close>
  for a placeholder) under the key \<open>hodnoceni\<close>, but the key looked up is computed from
  the header, which carries an accent; the lookup finds nothing and the score field of
  every exported row is the empty quoted string. The theorem states this for every row,
  and evaluates the export of a store with a review scored 85 (maximum 100) and a
  submission without a review: the text does not contain the field \<open>85 / 100\<close>.
\<close>
theorem export_score_field_is_empty:
  "csvValue (exportRow st it) (headers ! 4) = quoted []
   \<and> map_of (exportRow (settings exportDb) (reviewRow sub1 rev1)) ''hodnoceni'' = Some ''85 / 100''
   \<and> map_of (exportRow (settings exportDb) (placeholderRow sub2)) ''hodnoceni'' = Some ''N/A''
   \<and> handleExportToExcel (\<lambda>a b. 0) exportDb initialFilter initialSort =
       Inr ([CHR 0xEF, CHR 0xBB, CHR 0xBF] @ join [CHR 0x0A]
         [join '';'' headers,
          join '';'' (map quoted [''alice@example.com'', ''http://a.example/1'', ''bob@example.com'',
                        labelZkontrolovano, [], [], [], [], ''2024-01-03'']),
          join '';'' (map quoted [''bob@example.com'', ''http://b.example/2'', ''N/A'',
                        labelNevyzvednuto, [], [], [], [], ''N/A''])])
   \<and> \<not> includes_str
       ([CHR 0xEF, CHR 0xBB, CHR 0xBF] @ join [CHR 0x0A]
         [join '';'' headers,
          join '';'' (map quoted [''alice@example.com'', ''http://a.example/1'', ''bob@example.com'',
                        labelZkontrolovano, [], [], [], [], ''2024-01-03'']),
          join '';'' (map quoted [''bob@example.com'', ''http://b.example/2'', ''N/A'',
                        labelNevyzvednuto, [], [], [], [], ''N/A''])])
       (quoted ''85 / 100'')"
  using csvValue_score_empty exportRow_score_value exportRow_placeholder_value exportDb_output
    exportDb_no_score
  by blast

section \<open>Properties of the sort state\<close>

text \<open>
  Claim C6. From no sort, \<open>handleSort c\<close> gives ascending, then descending, then no
  sort again: a cycle of length three. From any state sorted on \<open>c\<close>, \<open>handleSort c'\<close>
  for another column \<open>c'\<close> gives ascending on \<open>c'\<close>.
\<close>
theorem handleSort_cycle:
  "handleSort c \<lparr> sort_column = None, sort_direction = NoDirection \<rparr> = \<lparr> sort_column = Some c, sort_direction = Asc \<rparr>
   \<and> handleSort c \<lparr> sort_column = Some c, sort_direction = Asc \<rparr> = \<lparr> sort_column = Some c, sort_direction = Desc \<rparr>
   \<and> handleSort c \<lparr> sort_column = Some c, sort_direction = Desc \<rparr> = \<lparr> sort_column = None, sort_direction = NoDirection \<rparr>
   \<and> handleSort c (handleSort c (handleSort c \<lparr> sort_column = None, sort_direction = NoDirection \<rparr>))
       = \<lparr> sort_column = None, sort_direction = NoDirection \<rparr>
   \<and> (sort_column prev = Some c \<and> c' \<noteq> c \<longrightarrow>
        handleSort c' prev = \<lparr> sort_column = Some c', sort_direction = Asc \<rparr>)"
  by (simp add: handleSort_def)

theorem handleSort_cycle_witness:
  "handleSort ''score'' (handleSort ''score'' (handleSort ''score'' \<lparr> sort_column = None, sort_direction = NoDirection \<rparr>))
       = \<lparr> sort_column = None, sort_direction = NoDirection \<rparr>
   \<and> handleSort ''sender'' \<lparr> sort_column = Some ''score'', sort_direction = Desc \<rparr>
       = \<lparr> sort_column = Some ''sender'', sort_direction = Asc \<rparr>"
  using handleSort_cycle [of "''score''" "\<lparr> sort_column = Some ''score'', sort_direction = Desc \<rparr>" "''sender''"]
  by simp

section \<open>Properties of the assignment selector\<close>

text \<open>
  Claim C4. A candidate of \<open>handleGetWorkToReview\<close> is a cached submission that the
  caller did not write and for which no cached review has that submission's id and the
  caller as reviewer. With no candidate the handler sends no write, leaves the store as
  it is and shows the message that nothing is available.
\<close>
theorem assignment_candidates:
  "(\<forall>s\<in>set (availableSubmissions dbData email).
       s \<in> set (submissions dbData) \<and> sub_author s \<noteq> email
       \<and> (\<forall>r\<in>set (reviews dbData). \<not> (rev_submissionId r = sub_id s \<and> rev_reviewer r = email)))
   \<and> (app_currentUser a = Some email \<and> availableSubmissions (app_dbData a) email = [] \<longrightarrow>
        handleGetWorkToReview e a = showMessage MsgNoWorkAvailable a
        \<and> app_issued (handleGetWorkToReview e a) = app_issued a
        \<and> app_remote (handleGetWorkToReview e a) = app_remote a
        \<and> app_confirmMessage (handleGetWorkToReview e a) = Some MsgNoWorkAvailable
        \<and> app_confirmModalOpen (handleGetWorkToReview e a))"
proof -
  have c: "\<forall>s\<in>set (availableSubmissions dbData email).
       s \<in> set (submissions dbData) \<and> sub_author s \<noteq> email
       \<and> (\<forall>r\<in>set (reviews dbData). \<not> (rev_submissionId r = sub_id s \<and> rev_reviewer r = email))"
    by (auto simp: availableSubmissions_def list_ex_iff)
  have n: "handleGetWorkToReview e a = showMessage MsgNoWorkAvailable a"
    if "app_currentUser a = Some email" and "availableSubmissions (app_dbData a) email = []"
    using that by (simp add: handleGetWorkToReview_def)
  show ?thesis
    using c n by (simp add: showMessage_def)
qed

lemma exampleDb_available_bob: "availableSubmissions exampleDb ''bob@example.com'' = []"
  by (simp add: availableSubmissions_def exampleDb_def sub1_def sub2_def rev1_def rev2_def rev3_def)

lemma exampleDb_available_carol: "availableSubmissions exampleDb ''carol@example.com'' = [sub2]"
  by (simp add: availableSubmissions_def exampleDb_def sub1_def sub2_def rev1_def rev2_def rev3_def)

theorem assignment_candidates_witness:
  "availableSubmissions exampleDb ''carol@example.com'' = [sub2]
   \<and> sub_author sub2 \<noteq> ''carol@example.com''
   \<and> availableSubmissions (app_dbData (exampleApp ''bob@example.com'')) ''bob@example.com'' = []
   \<and> app_issued (handleGetWorkToReview exampleEnv (exampleApp ''bob@example.com'')) = []
   \<and> app_remote (handleGetWorkToReview exampleEnv (exampleApp ''bob@example.com'')) = exampleDb
   \<and> app_confirmMessage (handleGetWorkToReview exampleEnv (exampleApp ''bob@example.com''))
       = Some MsgNoWorkAvailable"
proof -
  have u: "app_currentUser (exampleApp ''bob@example.com'') = Some ''bob@example.com''"
    and d: "app_dbData (exampleApp ''bob@example.com'') = exampleDb"
    and i: "app_issued (exampleApp ''bob@example.com'') = []"
    and m: "app_remote (exampleApp ''bob@example.com'') = exampleDb"
    by (simp_all add: exampleApp_def)
  from assignment_candidates [where dbData = exampleDb and email = "''carol@example.com''"]
  have "sub_author sub2 \<noteq> ''carol@example.com''"
    by (simp add: exampleDb_available_carol)
  moreover
  from assignment_candidates [where dbData = exampleDb and email = "''bob@example.com''"
      and a = "exampleApp ''bob@example.com''" and e = exampleEnv] u
  have "app_issued (handleGetWorkToReview exampleEnv (exampleApp ''bob@example.com'')) = []"
    and "app_remote (handleGetWorkToReview exampleEnv (exampleApp ''bob@example.com'')) = exampleDb"
    and "app_confirmMessage (handleGetWorkToReview exampleEnv (exampleApp ''bob@example.com''))
       = Some MsgNoWorkAvailable"
    by (simp_all add: d i m exampleDb_available_bob showMessage_def)
  ultimately show ?thesis
    by (simp add: d exampleDb_available_bob exampleDb_available_carol)
qed

lemma pickRandom_in_range:
  assumes "xs \<noteq> []" and "0 \<le> rnd" and "rnd < 1"
  shows "\<exists>c\<in>set xs. pickRandom rnd xs = Some c"
proof -
  let ?n = "length xs"
  let ?i = "\<lfloor>rnd * of_nat ?n\<rfloor>"
  have n: "0 < ?n" using assms(1) by simp
  have "0 \<le> rnd * of_nat ?n" using assms(2) by simp
  then have lo: "0 \<le> ?i" by simp
  have "rnd * of_nat ?n < of_nat ?n"
    using assms(3) n by simp
  then have hi: "?i < int ?n"
    by (simp add: floor_less_iff)
  from lo hi have "nat ?i < ?n" by (simp only: nat_less_iff)
  then have "xs ! nat ?i \<in> set xs" by simp
  moreover have "pickRandom rnd xs = Some (xs ! nat ?i)"
    using lo hi by (simp add: pickRandom_def)
  ultimately show ?thesis by blast
qed

lemma issue_accepted:
  assumes "env_accepts e w" and "applyWrite w (app_remote a) = Some d"
  shows "issue e w a = (True, a\<lparr>app_issued := app_issued a @ [w], app_remote := d\<rparr>)"
  using assms by (simp add: issue_def)

text \<open>
  Claim C7. When there is a candidate, \<open>Math.random()\<close> is from 0 up to 1, the store
  accepts the writes and still holds the candidates, the handler ends in the state it
  started from but for: the two writes in the trace, one review added to the store (for
  the chosen candidate, the caller as reviewer, status \<open>assigned\<close>, no score, empty
  comment, today as pickup date, no correction date), and today as the pickup date of
  the chosen submission. The other submissions, the other reviews and the settings are
  as before.
\<close>
theorem assignment_success_frame:
  assumes "app_currentUser a = Some email"
    and "availableSubmissions (app_dbData a) email \<noteq> []"
    and "0 \<le> env_random e" and "env_random e < 1"
    and "\<forall>w. env_accepts e w"
    and "\<forall>c\<in>set (availableSubmissions (app_dbData a) email).
           list_ex (\<lambda>s. sub_id s = sub_id c) (submissions (app_remote a))"
  shows "\<exists>c\<in>set (availableSubmissions (app_dbData a) email).
           handleGetWorkToReview e a =
             a\<lparr>app_issued := app_issued a @
                    [AddDocReview
                       \<lparr> rev_id = env_newId e, rev_submissionId = sub_id c, rev_reviewer = email,
                         rev_status = ''assigned'', rev_score = None, rev_comment = [],
                         rev_pickupDate = env_today e, rev_correctionDate = None \<rparr>,
                     UpdateSubmissionPickupDate (sub_id c) (env_today e)],
               app_remote := (app_remote a)
                 \<lparr>reviews := reviews (app_remote a) @
                    [\<lparr> rev_id = env_newId e, rev_submissionId = sub_id c, rev_reviewer = email,
                       rev_status = ''assigned'', rev_score = None, rev_comment = [],
                       rev_pickupDate = env_today e, rev_correctionDate = None \<rparr>],
                  submissions :=
                    map (\<lambda>s. if sub_id s = sub_id c then s\<lparr>sub_pickupDate := Some (env_today e)\<rparr> else s)
                      (submissions (app_remote a))\<rparr>\<rparr>"
proof -
  let ?av = "availableSubmissions (app_dbData a) email"
  from pickRandom_in_range [OF assms(2) assms(3) assms(4)]
  obtain c where c: "c \<in> set ?av" and p: "pickRandom (env_random e) ?av = Some c" by blast
  let ?nr = "newReview e (sub_id c) email"
  let ?w1 = "AddDocReview ?nr"
  let ?w2 = "UpdateSubmissionPickupDate (sub_id c) (env_today e)"
  let ?d1 = "(app_remote a)\<lparr>reviews := reviews (app_remote a) @ [?nr]\<rparr>"
  let ?a1 = "a\<lparr>app_issued := app_issued a @ [?w1], app_remote := ?d1\<rparr>"
  let ?d2 = "?d1\<lparr>submissions :=
      map (\<lambda>s. if sub_id s = sub_id c then s\<lparr>sub_pickupDate := Some (env_today e)\<rparr> else s)
        (submissions ?d1)\<rparr>"
  have ex: "list_ex (\<lambda>s. sub_id s = sub_id c) (submissions (app_remote a))"
    using assms(6) c by blast
  have i1: "issue e ?w1 a = (True, ?a1)"
    using assms(5) by (simp add: issue_def applyWrite_def)
  have i2: "issue e ?w2 ?a1 = (True, ?a1\<lparr>app_issued := app_issued ?a1 @ [?w2], app_remote := ?d2\<rparr>)"
    using assms(5) ex by (simp add: issue_def applyWrite_def)
  have "handleGetWorkToReview e a = ?a1\<lparr>app_issued := app_issued ?a1 @ [?w2], app_remote := ?d2\<rparr>"
    using assms(1) assms(2) p i1 i2 by (simp add: handleGetWorkToReview_def Let_def)
  then have "handleGetWorkToReview e a =
             a\<lparr>app_issued := app_issued a @
                    [AddDocReview
                       \<lparr> rev_id = env_newId e, rev_submissionId = sub_id c, rev_reviewer = email,
                         rev_status = ''assigned'', rev_score = None, rev_comment = [],
                         rev_pickupDate = env_today e, rev_correctionDate = None \<rparr>,
                     UpdateSubmissionPickupDate (sub_id c) (env_today e)],
               app_remote := (app_remote a)
                 \<lparr>reviews := reviews (app_remote a) @
                    [\<lparr> rev_id = env_newId e, rev_submissionId = sub_id c, rev_reviewer = email,
                       rev_status = ''assigned'', rev_score = None, rev_comment = [],
                       rev_pickupDate = env_today e, rev_correctionDate = None \<rparr>],
                  submissions :=
                    map (\<lambda>s. if sub_id s = sub_id c then s\<lparr>sub_pickupDate := Some (env_today e)\<rparr> else s)
                      (submissions (app_remote a))\<rparr>\<rparr>"
    by (simp add: newReview_def)
  with c show ?thesis by blast
qed


theorem assignment_success_frame_witness:
  "handleGetWorkToReview exampleEnv (exampleApp ''carol@example.com'') =
     (exampleApp ''carol@example.com'')
       \<lparr>app_issued :=
          [AddDocReview
             \<lparr> rev_id = ''r9'', rev_submissionId = ''s2'', rev_reviewer = ''carol@example.com'',
               rev_status = ''assigned'', rev_score = None, rev_comment = [],
               rev_pickupDate = ''2024-01-10'', rev_correctionDate = None \<rparr>,
           UpdateSubmissionPickupDate ''s2'' ''2024-01-10''],
        app_remote := exampleDb
          \<lparr>reviews :=
             [rev1, rev2, rev3,
              \<lparr> rev_id = ''r9'', rev_submissionId = ''s2'', rev_reviewer = ''carol@example.com'',
                rev_status = ''assigned'', rev_score = None, rev_comment = [],
                rev_pickupDate = ''2024-01-10'', rev_correctionDate = None \<rparr>],
           submissions := [sub1, sub2\<lparr>sub_pickupDate := Some ''2024-01-10''\<rparr>]\<rparr>\<rparr>"
proof -
  let ?a = "exampleApp ''carol@example.com''"
  have u: "app_currentUser ?a = Some ''carol@example.com''"
    and d: "app_dbData ?a = exampleDb" and m: "app_remote ?a = exampleDb"
    and i: "app_issued ?a = []"
    by (simp_all add: exampleApp_def)
  have av: "availableSubmissions (app_dbData ?a) ''carol@example.com'' = [sub2]"
    by (simp add: d exampleDb_available_carol)
  have h2: "availableSubmissions (app_dbData ?a) ''carol@example.com'' \<noteq> []"
    by (simp add: av)
  have h3: "0 \<le> env_random exampleEnv" and h4: "env_random exampleEnv < 1"
    and h5: "\<forall>w. env_accepts exampleEnv w"
    by (simp_all add: exampleEnv_def)
  have h6: "\<forall>c\<in>set (availableSubmissions (app_dbData ?a) ''carol@example.com'').
           list_ex (\<lambda>s. sub_id s = sub_id c) (submissions (app_remote ?a))"
    by (simp add: av m exampleDb_def sub1_def sub2_def)
  from assignment_success_frame [OF u h2 h3 h4 h5 h6]
  show ?thesis
    by (simp add: av m i exampleEnv_def exampleDb_def sub1_def sub2_def)
qed

section \<open>Properties of the cascade delete\<close>

lemma deleteReviews_accepted:
  assumes "\<forall>w. env_accepts e w"
  shows "deleteReviews e docs a =
     (True, a\<lparr>app_issued := app_issued a @ map (\<lambda>r. DeleteDocReview (rev_id r)) docs,
              app_remote := (app_remote a)
                \<lparr>reviews := filter (\<lambda>r. rev_id r \<notin> rev_id ` set docs) (reviews (app_remote a))\<rparr>\<rparr>)"
proof (induction docs arbitrary: a)
  case Nil
  show ?case by simp
next
  case (Cons x docs)
  have i: "issue e (DeleteDocReview (rev_id x)) a =
     (True, a\<lparr>app_issued := app_issued a @ [DeleteDocReview (rev_id x)],
              app_remote := (app_remote a)\<lparr>reviews := filter (\<lambda>r. rev_id r \<noteq> rev_id x) (reviews (app_remote a))\<rparr>\<rparr>)"
    using assms by (simp add: issue_def applyWrite_def)
  show ?case
    by (simp add: i Cons.IH)
qed

lemma handleDeleteSubmission_success:
  assumes "env_readable e"
    and "deleteReviews e (filter (\<lambda>r. rev_submissionId r = sid) (reviews (app_remote a))) a = (True, a1)"
    and "issue e (DeleteDocSubmission sid) a1 = (True, a2)"
  shows "handleDeleteSubmission e sid a = a2\<lparr>app_confirmModalOpen := False\<rparr>"
  using assms by (simp add: handleDeleteSubmission_def Let_def)

text \<open>
  Claim C5. When \<open>getDocs\<close> succeeds and the store accepts the deletes, after
  \<open>handleDeleteSubmission sid\<close> the store holds no review whose \<open>submissionId\<close> is
  \<open>sid\<close> and no submission with the id \<open>sid\<close>; the handler sent one delete for each
  such review and one for the submission, and shows no message.
\<close>
theorem delete_submission_cascade:
  assumes "env_readable e" and "\<forall>w. env_accepts e w"
  shows "(\<forall>r\<in>set (reviews (app_remote (handleDeleteSubmission e sid a))). rev_submissionId r \<noteq> sid)
       \<and> (\<forall>s\<in>set (submissions (app_remote (handleDeleteSubmission e sid a))). sub_id s \<noteq> sid)
       \<and> set (reviews (app_remote (handleDeleteSubmission e sid a))) \<subseteq> set (reviews (app_remote a))
       \<and> app_issued (handleDeleteSubmission e sid a) =
           app_issued a
             @ map (\<lambda>r. DeleteDocReview (rev_id r))
                 (filter (\<lambda>r. rev_submissionId r = sid) (reviews (app_remote a)))
             @ [DeleteDocSubmission sid]
       \<and> app_confirmMessage (handleDeleteSubmission e sid a) = app_confirmMessage a
       \<and> \<not> app_confirmModalOpen (handleDeleteSubmission e sid a)"
proof -
  let ?docs = "filter (\<lambda>r. rev_submissionId r = sid) (reviews (app_remote a))"
  let ?a1 = "a\<lparr>app_issued := app_issued a @ map (\<lambda>r. DeleteDocReview (rev_id r)) ?docs,
              app_remote := (app_remote a)
                \<lparr>reviews := filter (\<lambda>r. rev_id r \<notin> rev_id ` set ?docs) (reviews (app_remote a))\<rparr>\<rparr>"
  let ?a2 = "?a1\<lparr>app_issued := app_issued ?a1 @ [DeleteDocSubmission sid],
               app_remote := (app_remote ?a1)
                 \<lparr>submissions := filter (\<lambda>s. sub_id s \<noteq> sid) (submissions (app_remote ?a1))\<rparr>\<rparr>"
  have d: "deleteReviews e ?docs a = (True, ?a1)"
    by (rule deleteReviews_accepted [OF assms(2)])
  have i: "issue e (DeleteDocSubmission sid) ?a1 = (True, ?a2)"
    using assms(2) by (simp add: issue_def applyWrite_def)
  have r: "handleDeleteSubmission e sid a = ?a2\<lparr>app_confirmModalOpen := False\<rparr>"
    by (rule handleDeleteSubmission_success [OF assms(1) d i])
  show ?thesis
    unfolding r by auto
qed


theorem delete_submission_cascade_witness:
  "length (filter (\<lambda>r. rev_submissionId r = ''s1'') (reviews (app_remote (exampleApp ''alice@example.com'')))) = 2
   \<and> reviews (app_remote (handleDeleteSubmission exampleEnv ''s1'' (exampleApp ''alice@example.com''))) = [rev3]
   \<and> submissions (app_remote (handleDeleteSubmission exampleEnv ''s1'' (exampleApp ''alice@example.com''))) = [sub2]
   \<and> app_issued (handleDeleteSubmission exampleEnv ''s1'' (exampleApp ''alice@example.com''))
       = [DeleteDocReview ''r1'', DeleteDocReview ''r2'', DeleteDocSubmission ''s1'']
   \<and> filter (\<lambda>r. rev_submissionId r = ''s1'')
         (reviews (app_remote (handleDeleteSubmission exampleEnv ''s1'' (exampleApp ''alice@example.com'')))) = []"
proof -
  let ?a = "exampleApp ''alice@example.com''"
  let ?a' = "handleDeleteSubmission exampleEnv ''s1'' ?a"
  have h1: "env_readable exampleEnv" and h2: "\<forall>w. env_accepts exampleEnv w"
    by (simp_all add: exampleEnv_def)
  have m: "app_remote ?a = exampleDb" and i: "app_issued ?a = []"
    by (simp_all add: exampleApp_def)
  have d: "deleteReviews exampleEnv (filter (\<lambda>r. rev_submissionId r = ''s1'') (reviews (app_remote ?a))) ?a
      = (True, ?a\<lparr>app_issued := [DeleteDocReview ''r1'', DeleteDocReview ''r2''],
                    app_remote := exampleDb\<lparr>reviews := [rev3]\<rparr>\<rparr>)"
    by (simp only: deleteReviews_accepted [OF h2])
       (simp add: m i exampleDb_def rev1_def rev2_def rev3_def)
  have s: "issue exampleEnv (DeleteDocSubmission ''s1'')
             (?a\<lparr>app_issued := [DeleteDocReview ''r1'', DeleteDocReview ''r2''],
                  app_remote := exampleDb\<lparr>reviews := [rev3]\<rparr>\<rparr>)
      = (True, ?a\<lparr>app_issued := [DeleteDocReview ''r1'', DeleteDocReview ''r2'', DeleteDocSubmission ''s1''],
                    app_remote := exampleDb\<lparr>reviews := [rev3], submissions := [sub2]\<rparr>\<rparr>)"
    by (simp add: issue_def applyWrite_def exampleEnv_def exampleDb_def sub1_def sub2_def)
  have r: "?a' = ?a\<lparr>app_issued := [DeleteDocReview ''r1'', DeleteDocReview ''r2'', DeleteDocSubmission ''s1''],
                    app_remote := exampleDb\<lparr>reviews := [rev3], submissions := [sub2]\<rparr>,
                    app_confirmModalOpen := False\<rparr>"
    using handleDeleteSubmission_success [OF h1 d s] by simp
  have two: "length (filter (\<lambda>r. rev_submissionId r = ''s1'') (reviews (app_remote ?a))) = 2"
    by (simp add: m exampleDb_def rev1_def rev2_def rev3_def)
  from delete_submission_cascade [OF h1 h2, of "''s1''" ?a]
  have "\<forall>r\<in>set (reviews (app_remote ?a')). rev_submissionId r \<noteq> ''s1''" by blast
  then have "filter (\<lambda>r. rev_submissionId r = ''s1'') (reviews (app_remote ?a')) = []"
    by (simp add: filter_empty_conv)
  with two show ?thesis by (simp add: r)
qed

section \<open>Properties of the input validation\<close>

lemma app_issued_showMessage: "app_issued (showMessage m a) = app_issued a"
  by (simp add: showMessage_def)

lemma app_issued_issue: "app_issued (snd (issue e w a)) = app_issued a @ [w]"
  by (simp add: issue_def Let_def split: option.splits)

lemma handleSaveSettings_invalid:
  "\<not> validSettingsInput rc ms \<Longrightarrow> handleSaveSettings e rc ms a = showMessage MsgSettingsInvalid a"
  by (auto simp: validSettingsInput_def handleSaveSettings_def split: jsnum.splits)

lemma handleSaveSettings_valid:
  assumes "parseInt rc = Num n" and "parseInt ms = Num m" and "0 < n" and "0 \<le> m" and "m \<le> 100"
  shows "app_issued (handleSaveSettings e rc ms a)
           = app_issued a @ [SetDocSettings \<lparr> reviewsPerSubmission = n, maxScore = m \<rparr>]"
proof -
  let ?w = "SetDocSettings \<lparr> reviewsPerSubmission = n, maxScore = m \<rparr>"
  obtain ok a1 where i: "issue e ?w a = (ok, a1)" by (cases "issue e ?w a")
  with app_issued_issue [of e ?w a] have "app_issued a1 = app_issued a @ [?w]" by simp
  with assms i show ?thesis
    by (cases ok) (simp_all add: handleSaveSettings_def app_issued_showMessage)
qed

lemma parseInt_0: "parseInt ''0'' = Num 0" by code_simp
lemma parseInt_150: "parseInt ''150'' = Num 150" by code_simp
lemma parseInt_3: "parseInt ''3'' = Num 3" by code_simp
lemma parseInt_100: "parseInt ''100'' = Num 100" by code_simp

text \<open>
  Claim C8. \<open>handleSaveSettings\<close> sends a write exactly when both inputs parse to
  numbers with a positive review count and a maximum score from 0 to 100; otherwise it
  shows the validation message and leaves the store as it is. A review count of \<open>0\<close>
  and a maximum score of \<open>150\<close> are rejected; \<open>3\<close> and \<open>100\<close> are written.
\<close>
theorem save_settings_validation:
  "(app_issued (handleSaveSettings e rc ms a) \<noteq> app_issued a) = validSettingsInput rc ms
   \<and> (\<not> validSettingsInput rc ms \<longrightarrow>
        handleSaveSettings e rc ms a = showMessage MsgSettingsInvalid a
        \<and> app_remote (handleSaveSettings e rc ms a) = app_remote a)
   \<and> handleSaveSettings e ''0'' ms a = showMessage MsgSettingsInvalid a
   \<and> handleSaveSettings e rc ''150'' a = showMessage MsgSettingsInvalid a
   \<and> app_issued (handleSaveSettings e ''3'' ''100'' a)
       = app_issued a @ [SetDocSettings \<lparr> reviewsPerSubmission = 3, maxScore = 100 \<rparr>]"
proof -
  have iff: "(app_issued (handleSaveSettings e rc ms a) \<noteq> app_issued a) = validSettingsInput rc ms"
  proof (cases "validSettingsInput rc ms")
    case True
    then obtain n m where "parseInt rc = Num n" "parseInt ms = Num m" "0 < n" "0 \<le> m" "m \<le> 100"
      by (auto simp: validSettingsInput_def split: jsnum.splits)
    from handleSaveSettings_valid [OF this] True show ?thesis by simp
  next
    case False
    then show ?thesis by (simp add: handleSaveSettings_invalid app_issued_showMessage)
  qed
  have inv: "\<not> validSettingsInput rc ms \<longrightarrow>
        handleSaveSettings e rc ms a = showMessage MsgSettingsInvalid a
        \<and> app_remote (handleSaveSettings e rc ms a) = app_remote a"
    by (simp add: handleSaveSettings_invalid) (simp add: showMessage_def)
  have z: "handleSaveSettings e ''0'' ms a = showMessage MsgSettingsInvalid a"
    by (rule handleSaveSettings_invalid)
       (simp add: validSettingsInput_def parseInt_0 split: jsnum.splits)
  have b: "handleSaveSettings e rc ''150'' a = showMessage MsgSettingsInvalid a"
    by (rule handleSaveSettings_invalid)
       (simp add: validSettingsInput_def parseInt_150 split: jsnum.splits)
  have ok: "app_issued (handleSaveSettings e ''3'' ''100'' a)
       = app_issued a @ [SetDocSettings \<lparr> reviewsPerSubmission = 3, maxScore = 100 \<rparr>]"
    by (rule handleSaveSettings_valid [OF parseInt_3 parseInt_100]) simp_all
  from iff inv z b ok show ?thesis by blast
qed

theorem save_settings_validation_witness:
  "validSettingsInput ''3'' ''100''
   \<and> \<not> validSettingsInput ''0'' ''100''
   \<and> \<not> validSettingsInput ''3'' ''150''
   \<and> app_issued (handleSaveSettings exampleEnv ''3'' ''100'' (exampleApp ''admin@example.com''))
       = [SetDocSettings \<lparr> reviewsPerSubmission = 3, maxScore = 100 \<rparr>]
   \<and> app_issued (handleSaveSettings exampleEnv ''0'' ''100'' (exampleApp ''admin@example.com'')) = []
   \<and> app_confirmMessage (handleSaveSettings exampleEnv ''0'' ''100'' (exampleApp ''admin@example.com''))
       = Some MsgSettingsInvalid
   \<and> app_issued (handleSaveSettings exampleEnv ''3'' ''150'' (exampleApp ''admin@example.com'')) = []
   \<and> app_remote (handleSaveSettings exampleEnv ''3'' ''150'' (exampleApp ''admin@example.com'')) = exampleDb"
proof -
  let ?a = "exampleApp ''admin@example.com''"
  have v1: "validSettingsInput ''3'' ''100''"
    by (simp add: validSettingsInput_def parseInt_3 parseInt_100)
  have v2: "\<not> validSettingsInput ''0'' ''100''"
    by (simp add: validSettingsInput_def parseInt_0 parseInt_100)
  have v3: "\<not> validSettingsInput ''3'' ''150''"
    by (simp add: validSettingsInput_def parseInt_3 parseInt_150)
  have i: "app_issued ?a = []" and m: "app_remote ?a = exampleDb"
    by (simp_all add: exampleApp_def)
  note t1 = save_settings_validation [of exampleEnv "''0''" "''100''" ?a]
  note t2 = save_settings_validation [of exampleEnv "''3''" "''150''" ?a]
  from t1 have a1: "app_issued (handleSaveSettings exampleEnv ''3'' ''100'' ?a)
       = [SetDocSettings \<lparr> reviewsPerSubmission = 3, maxScore = 100 \<rparr>]"
    by (simp add: i)
  from t1 v2 have a2: "handleSaveSettings exampleEnv ''0'' ''100'' ?a = showMessage MsgSettingsInvalid ?a"
    by blast
  from t2 v3 have a3: "handleSaveSettings exampleEnv ''3'' ''150'' ?a = showMessage MsgSettingsInvalid ?a"
    by blast
  show ?thesis
    by (simp add: v1 v2 v3 a1 a2 a3 i m showMessage_def)
qed

lemma handleSubmitReview_invalid:
  assumes "app_currentReviewId a = Some rid" and "rid \<noteq> []"
    and "\<not> validScoreInput (app_reviewScore a) (maxScore (settings (app_dbData a)))"
  shows "handleSubmitReview e a = showMessage (MsgScoreOutOfRange (maxScore (settings (app_dbData a)))) a"
  using assms
  by (auto simp: validScoreInput_def handleSubmitReview_def Let_def split: jsnum.splits)

lemma handleSubmitReview_valid:
  assumes "app_currentReviewId a = Some rid" and "rid \<noteq> []"
    and "parseInt (app_reviewScore a) = Num n" and "0 \<le> n"
    and "n \<le> maxScore (settings (app_dbData a))"
  shows "\<exists>ws. app_issued (handleSubmitReview e a)
           = app_issued a @ UpdateDocReview rid n (trim (app_reviewComment a)) ''finished'' (env_today e) # ws"
proof -
  let ?w = "UpdateDocReview rid n (trim (app_reviewComment a)) ''finished'' (env_today e)"
  obtain ok a1 where i: "issue e ?w a = (ok, a1)" by (cases "issue e ?w a")
  with app_issued_issue [of e ?w a] have i1: "app_issued a1 = app_issued a @ [?w]" by simp
  show ?thesis
  proof (cases ok)
    case False
    with assms i i1 show ?thesis
      by (simp add: handleSubmitReview_def Let_def app_issued_showMessage)
  next
    case True
    show ?thesis
    proof (cases "find (\<lambda>r. rev_id r = rid) (reviews (app_dbData a))")
      case None
      with True assms i i1 show ?thesis
        by (simp add: handleSubmitReview_def Let_def finishReviewModal_def)
    next
      case (Some review)
      let ?w2 = "UpdateSubmissionCorrectionDate (rev_submissionId review) (env_today e)"
      obtain ok2 a2 where j: "issue e ?w2 a1 = (ok2, a2)" by (cases "issue e ?w2 a1")
      with app_issued_issue [of e ?w2 a1] i1 have "app_issued a2 = app_issued a @ [?w, ?w2]" by simp
      with Some True assms i j show ?thesis
        by (cases ok2) (simp_all add: handleSubmitReview_def Let_def finishReviewModal_def
            app_issued_showMessage)
    qed
  qed
qed

text \<open>
  Claim C9, as amended. The score that is checked is \<open>parseInt\<close> of the input: the
  integer the input starts with. With a review open for editing, \<open>handleSubmitReview\<close>
  sends its writes exactly when that integer exists and is from 0 to the maximum score,
  and the first write carries it; otherwise it sends nothing, shows the range message
  and leaves the store as it is. An input such as \<open>3.7\<close>, which is not an integer, is
  therefore accepted and written as 3, where the claim has it rejected.
\<close>
theorem submit_review_validation:
  assumes "app_currentReviewId a = Some rid" and "rid \<noteq> []"
  shows "(app_issued (handleSubmitReview e a) \<noteq> app_issued a)
           = validScoreInput (app_reviewScore a) (maxScore (settings (app_dbData a)))
       \<and> (\<not> validScoreInput (app_reviewScore a) (maxScore (settings (app_dbData a))) \<longrightarrow>
            handleSubmitReview e a
              = showMessage (MsgScoreOutOfRange (maxScore (settings (app_dbData a)))) a
            \<and> app_remote (handleSubmitReview e a) = app_remote a)
       \<and> (\<forall>n. parseInt (app_reviewScore a) = Num n \<and> 0 \<le> n \<and> n \<le> maxScore (settings (app_dbData a)) \<longrightarrow>
            (\<exists>ws. app_issued (handleSubmitReview e a)
               = app_issued a
                   @ UpdateDocReview rid n (trim (app_reviewComment a)) ''finished'' (env_today e) # ws))"
proof -
  let ?mx = "maxScore (settings (app_dbData a))"
  have v: "\<exists>ws. app_issued (handleSubmitReview e a)
               = app_issued a
                   @ UpdateDocReview rid n (trim (app_reviewComment a)) ''finished'' (env_today e) # ws"
    if "parseInt (app_reviewScore a) = Num n" and "0 \<le> n" and "n \<le> ?mx" for n
    using handleSubmitReview_valid [OF assms that] .
  have inv: "handleSubmitReview e a = showMessage (MsgScoreOutOfRange ?mx) a"
    if "\<not> validScoreInput (app_reviewScore a) ?mx"
    using handleSubmitReview_invalid [OF assms that] .
  have iff: "(app_issued (handleSubmitReview e a) \<noteq> app_issued a) = validScoreInput (app_reviewScore a) ?mx"
  proof (cases "validScoreInput (app_reviewScore a) ?mx")
    case True
    then obtain n where "parseInt (app_reviewScore a) = Num n" "0 \<le> n" "n \<le> ?mx"
      by (auto simp: validScoreInput_def split: jsnum.splits)
    from v [OF this] True show ?thesis by auto
  next
    case False
    with inv show ?thesis by (simp add: app_issued_showMessage)
  qed
  have rem: "app_remote (handleSubmitReview e a) = app_remote a"
    if "\<not> validScoreInput (app_reviewScore a) ?mx"
    using inv [OF that] by (simp add: showMessage_def)
  from iff inv rem v show ?thesis by blast
qed

lemma parseInt_3_7: "parseInt ''3.7'' = Num 3" by code_simp
lemma not_integer_3_7: "\<not> isIntegerText ''3.7''" by code_simp
lemma trim_fine: "trim ''fine'' = ''fine''" by code_simp

lemma reviewingApp_3_7:
  "app_issued (handleSubmitReview exampleEnv (reviewingApp ''3.7''))
     = [UpdateDocReview ''r2'' 3 ''fine'' ''finished'' ''2024-01-10'',
        UpdateSubmissionCorrectionDate ''s1'' ''2024-01-10'']"
  by (simp add: handleSubmitReview_def reviewingApp_def exampleApp_def exampleEnv_def parseInt_3_7
      trim_fine exampleDb_def defaultSettings_def issue_def applyWrite_def Let_def
      rev1_def rev2_def rev3_def sub1_def sub2_def finishReviewModal_def)

theorem submit_review_validation_counterexample:
  "\<not> isIntegerText ''3.7''
   \<and> app_reviewScore (reviewingApp ''3.7'') = ''3.7''
   \<and> app_issued (reviewingApp ''3.7'') = []
   \<and> app_issued (handleSubmitReview exampleEnv (reviewingApp ''3.7''))
       = [UpdateDocReview ''r2'' 3 ''fine'' ''finished'' ''2024-01-10'',
          UpdateSubmissionCorrectionDate ''s1'' ''2024-01-10'']"
  using not_integer_3_7 reviewingApp_3_7 by (simp add: reviewingApp_def exampleApp_def)

theorem submit_review_validation_witness:
  "validScoreInput ''3.7'' 100
   \<and> \<not> validScoreInput ''150'' 100
   \<and> app_issued (handleSubmitReview exampleEnv (reviewingApp ''3.7'')) \<noteq> []
   \<and> app_issued (handleSubmitReview exampleEnv (reviewingApp ''150'')) = []
   \<and> app_confirmMessage (handleSubmitReview exampleEnv (reviewingApp ''150''))
       = Some (MsgScoreOutOfRange 100)
   \<and> app_remote (handleSubmitReview exampleEnv (reviewingApp ''150'')) = exampleDb"
proof -
  have c: "app_currentReviewId (reviewingApp s) = Some ''r2''" and n: "''r2'' \<noteq> []"
    and sc: "app_reviewScore (reviewingApp s) = s"
    and mx: "maxScore (settings (app_dbData (reviewingApp s))) = 100"
    and i: "app_issued (reviewingApp s) = []"
    and m: "app_remote (reviewingApp s) = exampleDb" for s
    by (simp_all add: reviewingApp_def exampleApp_def exampleDb_def defaultSettings_def)
  have v1: "validScoreInput ''3.7'' 100" by (simp add: validScoreInput_def parseInt_3_7)
  have v2: "\<not> validScoreInput ''150'' 100" by (simp add: validScoreInput_def parseInt_150)
  from submit_review_validation [OF c [of "''3.7''"] n, where e = exampleEnv] v1
  have a1: "app_issued (handleSubmitReview exampleEnv (reviewingApp ''3.7'')) \<noteq> []"
    by (simp add: sc mx i)
  from submit_review_validation [OF c [of "''150''"] n, where e = exampleEnv] v2
  have a2: "handleSubmitReview exampleEnv (reviewingApp ''150'')
      = showMessage (MsgScoreOutOfRange 100) (reviewingApp ''150'')"
    by (simp add: sc mx)
  show ?thesis
    by (simp add: v1 v2 a1 a2 showMessage_def i m)
qed

end
